theory Spec2Isabelle
  imports Complex_Main
begin

section \<open>The skin craft plugin (skeinforge\_plugins/craft\_plugins/skin.py)\<close>

text \<open>
  The plugin rewrites an annotated gcode text: every captured perimeter and infill
  region is replaced by several passes of fractional height. This theory embeds
  the module's functions and the methods of \<^verbatim>\<open>SkinSkein\<close>.

  Conventions of the embedding.
  \<^item> Python floats are read as exact reals (type \<open>real\<close>); rounding is not modelled.
    Python integers are \<open>int\<close>, list indices and the scan position are \<open>nat\<close>.
  \<^item> A 2D point is a \<open>complex\<close>, as in the source.
  \<^item> Every exception the source can raise is a value: a method returns
    \<open>error + state\<close>, \<open>Inl\<close> carrying the exception.
  \<^item> An attribute that \<^verbatim>\<open>__init__\<close> sets to \<^verbatim>\<open>None\<close>, or that only exists once
    a header tag has been parsed, is an \<open>option\<close>; reading it while absent is the
    \<^verbatim>\<open>AttributeError\<close> (or \<^verbatim>\<open>TypeError\<close>) Python raises.
  \<^item> The modules \<^verbatim>\<open>gcodec\<close>, \<^verbatim>\<open>euclidean\<close>, \<^verbatim>\<open>intercircle\<close>, \<^verbatim>\<open>triangle_mesh\<close>,
    \<^verbatim>\<open>archive\<close> and \<^verbatim>\<open>settings\<close> are imported by skin.py but are not part of the
    source at hand. Their functions are the fields of a record \<open>externals\<close> that
    every embedded function takes as its first argument, so each theorem holds for
    every implementation of them.
\<close>

subsection \<open>Data\<close>

datatype error = AttributeError | TypeError | ZeroDivisionError | IndexError | ValueError

text \<open>\<^verbatim>\<open>fabmetheus_utilities.vector3.Vector3\<close>: three float coordinates;
  \<^verbatim>\<open>dropAxis()\<close> projects to the complex number \<open>x + y i\<close>.\<close>

datatype vector3 = Vector3 (vec_x: real) (vec_y: real) (vec_z: real)

definition dropAxis :: "vector3 \<Rightarrow> complex" where
  "dropAxis v = Complex (vec_x v) (vec_y v)"

text \<open>The values of the settings of \<^verbatim>\<open>SkinRepository\<close> that the skein reads
  (\<^verbatim>\<open>repository.activateSkin.value\<close> and so on).\<close>

record repository =
  activateSkinValue :: bool
  horizontalInfillDivisionsValue :: int
  horizontalPerimeterDivisionsValue :: int
  verticalDivisionsValue :: int
  hopWhenExtrudingInfillValue :: bool
  layersFromValue :: int

text \<open>
  \<^verbatim>\<open>self.distanceFeedRate\<close> is a \<^verbatim>\<open>gcodec.DistanceFeedRate\<close>. The skein only calls
  methods on it, so its output is kept as the sequence of the emitting calls made so
  far, in order; \<^verbatim>\<open>parseSplitLine\<close>, which emits nothing, acts on an abstract state
  \<open>'d\<close> of the object.
\<close>

datatype out_cmd =
    AddLine string
  | AddTagBracketedProcedure string
  | AddGcodeFromFeedRateThreadZ real "complex list" real real
  | AddGcodeMovementZWithFeedRate real complex real

text \<open>\<^verbatim>\<open>euclidean.LoopLayer\<close>: a layer height and a list of loops.\<close>

record loopLayer =
  layer_z :: real
  layer_loops :: "complex list list"

text \<open>The imported functions. Those that parse numbers out of a line can raise and
  return a sum; the geometry functions are pure. \<open>pyfloat\<close> is Python's builtin
  \<^verbatim>\<open>float\<close> on a string (\<open>None\<close> is its \<^verbatim>\<open>ValueError\<close>). \<open>getInfillDictionary\<close>
  returns the dictionary as the list of its items in the order \<^verbatim>\<open>keys()\<close>
  enumerates them, together with the pixel table it filled.\<close>

record ('d, 'pt) externals =
  isProcedureDone :: "string \<Rightarrow> string \<Rightarrow> bool"
  getReadRepository :: repository
  getTextLines :: "string \<Rightarrow> string list"
  getSplitLineBeforeBracketSemicolon :: "string \<Rightarrow> string list"
  getFirstWord :: "string list \<Rightarrow> string"
  pyfloat :: "string \<Rightarrow> real option"
  getFeedRateMinute :: "real \<Rightarrow> string list \<Rightarrow> error + real"
  getLocationFromSplitLine :: "vector3 option \<Rightarrow> string list \<Rightarrow> error + vector3"
  getDoubleAfterFirstLetter :: "string \<Rightarrow> error + real"
  getRotationBySplitLine :: "string list \<Rightarrow> error + complex"
  getFourSignificantFigures :: "real \<Rightarrow> string"
  getGcodeWithoutDuplication :: "string \<Rightarrow> string \<Rightarrow> string"
  newDistanceFeedRate :: 'd
  parseSplitLine :: "'d \<Rightarrow> string \<Rightarrow> string list \<Rightarrow> 'd"
  getvalue :: "'d \<Rightarrow> out_cmd list \<Rightarrow> string"
  getLargestInsetLoopFromLoop :: "complex list \<Rightarrow> real \<Rightarrow> complex list"
  getClippedSimplifiedLoopPath :: "real \<Rightarrow> complex list \<Rightarrow> real \<Rightarrow> complex list"
  getRotatedComplexes :: "complex \<Rightarrow> complex list \<Rightarrow> complex list"
  getInfillDictionary ::
    "real \<Rightarrow> real \<Rightarrow> real \<Rightarrow> real \<Rightarrow> complex list list \<Rightarrow> (int \<times> real list) list \<times> 'pt"
  getSegmentsFromXIntersections :: "real list \<Rightarrow> real \<Rightarrow> complex list list"
  getPathsFromEndpoints :: "complex list \<Rightarrow> real \<Rightarrow> 'pt \<Rightarrow> real \<Rightarrow> complex list list"

text \<open>
  The attributes of a \<^verbatim>\<open>SkinSkein\<close>. \<^verbatim>\<open>self.infillBoundary\<close> is an alias of the list
  last appended to \<^verbatim>\<open>self.infillBoundaries\<close>, and stays bound to that list after
  \<^verbatim>\<open>self.infillBoundaries\<close> is replaced; so the loops under construction live in a
  store \<open>loopStore\<close> and both attributes hold addresses (indices) into it; entries
  are only appended to the store, and an address is only created together with its
  entry. The
  attribute \<^verbatim>\<open>self.infill\<close> is never read or written after \<^verbatim>\<open>__init__\<close> and is left
  out. The attributes that \<^verbatim>\<open>getCraftedGcode\<close> assigns before it calls any other
  method (\<^verbatim>\<open>lines\<close>, \<^verbatim>\<open>repository\<close>, \<^verbatim>\<open>layersFromBottom\<close>, the division counts) are
  plain fields.
\<close>

record 'd skein =
  clipOverPerimeterWidth :: real
  distanceFeedRate :: 'd
  dfr_output :: "out_cmd list"
  feedRateMinute :: real
  infillBoundaries :: "nat list option"
  infillBoundary :: "nat option"
  loopStore :: "complex list list"
  layerIndex :: int
  lineIndex :: nat
  lines :: "string list"
  maximumZFeedRateMinute :: real
  oldFlowRate :: "real option"
  oldLocation :: "vector3 option"
  perimeter :: "complex list option"
  travelFeedRateMinute :: real
  repository :: repository
  layersFromBottom :: int
  horizontalInfillDivisionsFloat :: real
  horizontalPerimeterDivisionsFloat :: real
  verticalDivisions :: int
  verticalDivisionsFloat :: real
  clipLength :: "real option"
  skinInfillInset :: "real option"
  infillPerimeterOverlap :: "real option"
  infillWidth :: "real option"
  skinInfillWidth :: "real option"
  layerThickness :: "real option"
  perimeterWidth :: "real option"
  halfPerimeterWidth :: "real option"
  boundaryLayers :: "loopLayer list"
  layerIndexTop :: int
  rotation :: "complex option"
  reverseRotation :: "complex option"

subsection \<open>Module functions and output helpers\<close>

text \<open>\<^verbatim>\<open>getIsMinimumSides(loops, sides=3)\<close>.\<close>

fun getIsMinimumSides :: "'a list list \<Rightarrow> nat \<Rightarrow> bool" where
  "getIsMinimumSides [] sides = True"
| "getIsMinimumSides (loop # loops) sides =
     (if length loop < sides then False else getIsMinimumSides loops sides)"

definition addLine :: "string \<Rightarrow> 'd skein \<Rightarrow> 'd skein" where
  "addLine line s = s\<lparr>dfr_output := dfr_output s @ [AddLine line]\<rparr>"

definition flowRateLine :: "('d, 'pt) externals \<Rightarrow> real \<Rightarrow> out_cmd" where
  "flowRateLine E flowRate = AddLine (''M108 S'' @ getFourSignificantFigures E flowRate)"

definition addFlowRateLine :: "('d, 'pt) externals \<Rightarrow> real \<Rightarrow> 'd skein \<Rightarrow> 'd skein" where
  "addFlowRateLine E flowRate s = s\<lparr>dfr_output := dfr_output s @ [flowRateLine E flowRate]\<rparr>"

definition addPerimeterLoop :: "complex list \<Rightarrow> real \<Rightarrow> 'd skein \<Rightarrow> 'd skein" where
  "addPerimeterLoop thread zz s =
     s\<lparr>dfr_output := dfr_output s @
        [AddGcodeFromFeedRateThreadZ (feedRateMinute s) thread (travelFeedRateMinute s) zz]\<rparr>"

text \<open>\<^verbatim>\<open>getClippedSimplifiedLoopPathByLoop\<close>: an empty loop gives an empty path without
  reading any attribute.\<close>

definition getClippedSimplifiedLoopPathByLoop ::
  "('d, 'pt) externals \<Rightarrow> 'd skein \<Rightarrow> complex list \<Rightarrow> error + complex list" where
  "getClippedSimplifiedLoopPathByLoop E s loop =
     (if length loop = 0 then Inr []
      else (case clipLength s of None \<Rightarrow> Inl AttributeError
        | Some cl \<Rightarrow> (case halfPerimeterWidth s of None \<Rightarrow> Inl AttributeError
        | Some hw \<Rightarrow> Inr (getClippedSimplifiedLoopPath E cl (loop @ [hd loop]) hw))))"

subsection \<open>The skinned perimeter generator\<close>

text \<open>The loop over \<^verbatim>\<open>xrange(horizontalPerimeterDivisions.value)\<close> that fills
  \<^verbatim>\<open>perimeters\<close>; the radius grows by \<^verbatim>\<open>radiusAddition\<close> after each inset.\<close>

fun insetPerimeters ::
  "('d, 'pt) externals \<Rightarrow> 'd skein \<Rightarrow> complex list \<Rightarrow> real \<Rightarrow> real \<Rightarrow> nat
     \<Rightarrow> error + complex list list" where
  "insetPerimeters E s perimeterThread radiusAddition radius 0 = Inr []"
| "insetPerimeters E s perimeterThread radiusAddition radius (Suc n) =
     (case getClippedSimplifiedLoopPathByLoop E s
              (getLargestInsetLoopFromLoop E perimeterThread radius) of
        Inl e \<Rightarrow> Inl e
      | Inr p \<Rightarrow>
         (case insetPerimeters E s perimeterThread radiusAddition (radius + radiusAddition) n of
            Inl e \<Rightarrow> Inl e
          | Inr ps \<Rightarrow> Inr (p # ps)))"

text \<open>The z of vertical division \<open>i\<close>:
  \<^verbatim>\<open>bottomZ + self.layerThickness / self.verticalDivisionsFloat * float(i)\<close>.\<close>

definition divisionZ :: "'d skein \<Rightarrow> real \<Rightarrow> real \<Rightarrow> nat \<Rightarrow> real" where
  "divisionZ s bottomZ thickness i =
     bottomZ + thickness / verticalDivisionsFloat s * real i"

definition addPerimeterLoops :: "complex list list \<Rightarrow> real \<Rightarrow> 'd skein \<Rightarrow> 'd skein" where
  "addPerimeterLoops perimeters zz s = foldl (\<lambda>st p. addPerimeterLoop p zz st) s perimeters"

text \<open>The second half of \<^verbatim>\<open>addSkinnedPerimeter\<close>, from \<^verbatim>\<open>skinnedPerimeterFlowRate\<close>
  on: the scaled flow rate line, the threads of either branch of the
  \<^verbatim>\<open>getIsMinimumSides\<close> test, the line restoring the flow rate, and the reset of
  \<^verbatim>\<open>self.perimeter\<close>.\<close>

definition emitSkinnedPerimeter ::
  "('d, 'pt) externals \<Rightarrow> 'd skein \<Rightarrow> complex list \<Rightarrow> complex list list \<Rightarrow> real \<Rightarrow> real \<Rightarrow> real
     \<Rightarrow> 'd skein" where
  "emitSkinnedPerimeter E s perim perimeters bottomZ thickness flow =
     (let skinnedPerimeterFlowRate = flow / verticalDivisionsFloat s;
          vs = [0 ..< nat (verticalDivisions s)];
          s1 =
            (if getIsMinimumSides perimeters 3
             then foldl (\<lambda>st i. addPerimeterLoops perimeters (divisionZ s bottomZ thickness i) st)
                    (addFlowRateLine E
                       (skinnedPerimeterFlowRate / horizontalPerimeterDivisionsFloat s) s) vs
             else foldl (\<lambda>st i. addPerimeterLoop perim (divisionZ s bottomZ thickness i) st)
                    (addFlowRateLine E skinnedPerimeterFlowRate s) vs)
      in (addFlowRateLine E flow s1)\<lparr>perimeter := None\<rparr>)"

definition addSkinnedPerimeter :: "('d, 'pt) externals \<Rightarrow> 'd skein \<Rightarrow> error + 'd skein" where
  "addSkinnedPerimeter E s =
     (case perimeter s of None \<Rightarrow> Inr s
      | Some perim \<Rightarrow>
     (case oldLocation s of None \<Rightarrow> Inl AttributeError
      | Some loc \<Rightarrow>
     (case layerThickness s of None \<Rightarrow> Inl AttributeError
      | Some thickness \<Rightarrow>
      if verticalDivisionsFloat s = 0 then Inl ZeroDivisionError else
     (case perimeterWidth s of None \<Rightarrow> Inl AttributeError
      | Some pw \<Rightarrow>
      if horizontalPerimeterDivisionsFloat s = 0 then Inl ZeroDivisionError else
     (case halfPerimeterWidth s of None \<Rightarrow> Inl AttributeError
      | Some hw \<Rightarrow>
      let bottomZ = vec_z loc + thickness / verticalDivisionsFloat s - thickness;
          perimeterThread = butlast perim;
          radiusAddition = pw / horizontalPerimeterDivisionsFloat s;
          radius = 0.5 * radiusAddition - hw
      in
     (case insetPerimeters E s perimeterThread radiusAddition radius
             (nat (horizontalPerimeterDivisionsValue (repository s))) of
        Inl e \<Rightarrow> Inl e
      | Inr perimeters \<Rightarrow>
     (case oldFlowRate s of None \<Rightarrow> Inl TypeError
      | Some flow \<Rightarrow>
          Inr (emitSkinnedPerimeter E s perim perimeters bottomZ thickness flow))))))))"

subsection \<open>The skinned infill generator\<close>

text \<open>The first loop of \<^verbatim>\<open>addSkinnedInfillBoundary\<close>: every boundary is rotated by
  \<^verbatim>\<open>self.reverseRotation\<close> (read only when there is a boundary) and, when
  \<^verbatim>\<open>offsetY != 0.0\<close>, shifted down by it.\<close>

definition rotatedLoopsOf ::
  "('d, 'pt) externals \<Rightarrow> 'd skein \<Rightarrow> nat list \<Rightarrow> real \<Rightarrow> error + complex list list" where
  "rotatedLoopsOf E s addrs offsetY =
     (case addrs of [] \<Rightarrow> Inr []
      | _ # _ \<Rightarrow>
        (case reverseRotation s of None \<Rightarrow> Inl AttributeError
         | Some rr \<Rightarrow>
            Inr (map (\<lambda>a. let infillBoundaryRotated = getRotatedComplexes E rr (loopStore s ! a)
                          in if offsetY \<noteq> 0
                             then map (\<lambda>p. Complex (Re p) (Im p - offsetY)) infillBoundaryRotated
                             else infillBoundaryRotated) addrs)))"

text \<open>The body of the loop over \<^verbatim>\<open>infillPaths\<close>, and the loop. \<^verbatim>\<open>infillRotated[0]\<close>
  and \<^verbatim>\<open>infillRotated[-1]\<close> raise on an empty path; one of them is evaluated on either
  branch of the hop test.\<close>

definition addInfillPath ::
  "('d, 'pt) externals \<Rightarrow> real \<Rightarrow> real \<Rightarrow> complex list \<Rightarrow> 'd skein \<Rightarrow> error + 'd skein" where
  "addInfillPath E upperZ zz infillPath s =
     (case rotation s of None \<Rightarrow> Inl AttributeError
      | Some rot \<Rightarrow>
        let infillRotated = getRotatedComplexes E rot infillPath;
            hop = (upperZ > zz \<and> hopWhenExtrudingInfillValue (repository s))
        in if infillRotated = [] then Inl IndexError
           else
             let s1 = (if hop
                       then s\<lparr>dfr_output := dfr_output s @
                              [AddGcodeMovementZWithFeedRate (maximumZFeedRateMinute s)
                                 (hd infillRotated) upperZ]\<rparr>
                       else s);
                 s2 = s1\<lparr>dfr_output := dfr_output s1 @
                        [AddGcodeFromFeedRateThreadZ (feedRateMinute s1) infillRotated
                           (travelFeedRateMinute s1) zz]\<rparr>;
                 lastPointRotated = last infillRotated;
                 s3 = s2\<lparr>oldLocation :=
                        Some (Vector3 (Re lastPointRotated) (Im lastPointRotated) upperZ)\<rparr>;
                 s4 = (if hop
                       then s3\<lparr>dfr_output := dfr_output s3 @
                              [AddGcodeMovementZWithFeedRate (maximumZFeedRateMinute s3)
                                 lastPointRotated upperZ]\<rparr>
                       else s3)
             in Inr s4)"

fun addInfillPaths ::
  "('d, 'pt) externals \<Rightarrow> real \<Rightarrow> real \<Rightarrow> complex list list \<Rightarrow> 'd skein \<Rightarrow> error + 'd skein" where
  "addInfillPaths E upperZ zz [] s = Inr s"
| "addInfillPaths E upperZ zz (infillPath # rest) s =
     (case addInfillPath E upperZ zz infillPath s of
        Inl e \<Rightarrow> Inl e
      | Inr s4 \<Rightarrow> addInfillPaths E upperZ zz rest s4)"

text \<open>The infill paths of one sub-pass: scanline intersections of the shifted loops,
  sorted per row, turned into segments whose endpoints are shifted back, and joined.\<close>

definition infillPathsOf ::
  "('d, 'pt) externals \<Rightarrow> real \<Rightarrow> real \<Rightarrow> real \<Rightarrow> complex list list \<Rightarrow> complex list list" where
  "infillPathsOf E inset siw offsetY rotatedLoops =
     (let aroundInset = 0.24321 * inset;
          aroundWidth = 0.24321 * inset;
          (infillDictionary, pixelTable) =
             getInfillDictionary E aroundInset aroundWidth inset siw rotatedLoops;
          endpoints =
             concat (map (\<lambda>(infillDictionaryKey, xIntersections).
                concat (map (\<lambda>segment. map (\<lambda>p. Complex (Re p) (Im p + offsetY)) segment)
                  (getSegmentsFromXIntersections E (sort xIntersections)
                     (real_of_int infillDictionaryKey * siw)))) infillDictionary)
      in getPathsFromEndpoints E endpoints (5.0 * siw) pixelTable aroundWidth)"

definition addSkinnedInfillBoundary ::
  "('d, 'pt) externals \<Rightarrow> 'd skein \<Rightarrow> nat list \<Rightarrow> real \<Rightarrow> real \<Rightarrow> real \<Rightarrow> error + 'd skein" where
  "addSkinnedInfillBoundary E s addrs offsetY upperZ zz =
     (case skinInfillInset s of None \<Rightarrow> Inl AttributeError
      | Some inset \<Rightarrow>
     (case rotatedLoopsOf E s addrs offsetY of Inl e \<Rightarrow> Inl e
      | Inr rotatedLoops \<Rightarrow>
     (case skinInfillWidth s of None \<Rightarrow> Inl AttributeError
      | Some siw \<Rightarrow>
         addInfillPaths E upperZ zz (infillPathsOf E inset siw offsetY rotatedLoops) s)))"

text \<open>The loop over \<^verbatim>\<open>xrange(self.verticalDivisions)\<close> of \<^verbatim>\<open>addSkinnedInfill\<close>. The
  argument \<^verbatim>\<open>self.oldLocation.z\<close> is read anew at every iteration;
  \<^verbatim>\<open>offsetY * (verticalDivisionIndex % 2 == 0)\<close> is \<open>offsetY\<close> on even indices and
  \<open>0\<close> on odd ones.\<close>

fun infillDivisions ::
  "('d, 'pt) externals \<Rightarrow> nat list \<Rightarrow> real \<Rightarrow> real \<Rightarrow> real \<Rightarrow> nat list \<Rightarrow> 'd skein
     \<Rightarrow> error + 'd skein" where
  "infillDivisions E addrs offsetY bottomZ thickness [] s = Inr s"
| "infillDivisions E addrs offsetY bottomZ thickness (i # rest) s =
     (case oldLocation s of None \<Rightarrow> Inl AttributeError
      | Some loc \<Rightarrow>
        (case addSkinnedInfillBoundary E s addrs (if even i then offsetY else 0) (vec_z loc)
                (divisionZ s bottomZ thickness i) of
           Inl e \<Rightarrow> Inl e
         | Inr s' \<Rightarrow> infillDivisions E addrs offsetY bottomZ thickness rest s'))"

definition addSkinnedInfill :: "('d, 'pt) externals \<Rightarrow> 'd skein \<Rightarrow> error + 'd skein" where
  "addSkinnedInfill E s =
     (case infillBoundaries s of None \<Rightarrow> Inr s
      | Some addrs \<Rightarrow>
     (case oldLocation s of None \<Rightarrow> Inl AttributeError
      | Some loc \<Rightarrow>
     (case layerThickness s of None \<Rightarrow> Inl AttributeError
      | Some thickness \<Rightarrow>
      if verticalDivisionsFloat s = 0 then Inl ZeroDivisionError else
     (case skinInfillWidth s of None \<Rightarrow> Inl AttributeError
      | Some siw \<Rightarrow>
     (case oldFlowRate s of None \<Rightarrow> Inl TypeError
      | Some flow \<Rightarrow>
      if horizontalInfillDivisionsFloat s = 0 then Inl ZeroDivisionError else
      let bottomZ = vec_z loc + thickness / verticalDivisionsFloat s - thickness;
          offsetY = 0.5 * siw;
          s1 = addFlowRateLine E
                 (flow / verticalDivisionsFloat s / horizontalInfillDivisionsFloat s) s
      in
     (case infillDivisions E addrs offsetY bottomZ thickness
             [0 ..< nat (verticalDivisions s)] s1 of
        Inl e \<Rightarrow> Inl e
      | Inr s2 \<Rightarrow>
     (case oldFlowRate s2 of None \<Rightarrow> Inl TypeError
      | Some flow2 \<Rightarrow> Inr ((addFlowRateLine E flow2 s2)\<lparr>infillBoundaries := None\<rparr>))))))))"

subsection \<open>Parsing\<close>

text \<open>\<^verbatim>\<open>float(splitLine[1])\<close>: \<^verbatim>\<open>IndexError\<close> on a line with a single word,
  \<^verbatim>\<open>ValueError\<close> when the word is not a number.\<close>

definition floatArg :: "('d, 'pt) externals \<Rightarrow> string list \<Rightarrow> error + real" where
  "floatArg E splitLine =
     (if length splitLine < 2 then Inl IndexError
      else (case pyfloat E (splitLine ! 1) of None \<Rightarrow> Inl ValueError | Some r \<Rightarrow> Inr r))"

text \<open>
  The first loop of \<^verbatim>\<open>parseBoundaries\<close>. Its local state is the list of layers (the
  local \<^verbatim>\<open>boundaryLayer\<close> is its last element, or \<^verbatim>\<open>None\<close> while the list is empty),
  \<^verbatim>\<open>self.layerIndexTop\<close>, and \<^verbatim>\<open>boundaryLoop\<close>: \<^verbatim>\<open>None\<close>, or an alias of a loop of a
  layer, kept as the position (layer, loop) of that loop. The alias survives a
  \<^verbatim>\<open>(<layer>\<close> line, as in the source.
\<close>

fun parseBoundaryLines ::
  "('d, 'pt) externals \<Rightarrow> string list \<Rightarrow> loopLayer list \<times> int \<times> (nat \<times> nat) option
     \<Rightarrow> error + (loopLayer list \<times> int \<times> (nat \<times> nat) option)" where
  "parseBoundaryLines E [] st = Inr st"
| "parseBoundaryLines E (line # rest) (layers, topIndex, boundaryLoop) =
     (let splitLine = getSplitLineBeforeBracketSemicolon E line;
          firstWord = getFirstWord E splitLine
      in if firstWord = ''(</boundaryPerimeter>)''
           then parseBoundaryLines E rest (layers, topIndex, None)
         else if firstWord = ''(<boundaryPoint>''
           then (case getLocationFromSplitLine E None splitLine of
                   Inl e \<Rightarrow> Inl e
                 | Inr location \<Rightarrow>
                    (case boundaryLoop of
                       Some (li, ki) \<Rightarrow>
                         parseBoundaryLines E rest
                           (layers[li := (layers ! li)\<lparr>layer_loops :=
                               (layer_loops (layers ! li))
                                 [ki := layer_loops (layers ! li) ! ki @ [dropAxis location]]\<rparr>],
                            topIndex, Some (li, ki))
                     | None \<Rightarrow>
                         (if layers = [] then Inl AttributeError
                          else
                            let li = length layers - 1;
                                boundaryLayer = last layers;
                                ki = length (layer_loops boundaryLayer)
                            in parseBoundaryLines E rest
                                 (butlast layers @
                                    [boundaryLayer\<lparr>layer_loops :=
                                       layer_loops boundaryLayer @ [[dropAxis location]]\<rparr>],
                                  topIndex, Some (li, ki)))))
         else if firstWord = ''(<layer>''
           then (case floatArg E splitLine of
                   Inl e \<Rightarrow> Inl e
                 | Inr h \<Rightarrow>
                     parseBoundaryLines E rest
                       (layers @ [\<lparr>layer_z = h, layer_loops = []\<rparr>], topIndex + 1, boundaryLoop))
         else parseBoundaryLines E rest (layers, topIndex, boundaryLoop))"

text \<open>The second loop of \<^verbatim>\<open>parseBoundaries\<close>: the index of the first layer with
  \<^verbatim>\<open>len(boundaryLayer.loops) > 0\<close>, counting from \<open>i\<close>.\<close>

fun firstLayerWithLoops :: "loopLayer list \<Rightarrow> nat \<Rightarrow> nat option" where
  "firstLayerWithLoops [] i = None"
| "firstLayerWithLoops (boundaryLayer # rest) i =
     (if length (layer_loops boundaryLayer) > 0 then Some i
      else firstLayerWithLoops rest (Suc i))"

definition parseBoundaries :: "('d, 'pt) externals \<Rightarrow> 'd skein \<Rightarrow> error + 'd skein" where
  "parseBoundaries E s =
     (case parseBoundaryLines E (drop (lineIndex s) (lines s)) ([], -1, None) of
        Inl e \<Rightarrow> Inl e
      | Inr (layers, topIndex, boundaryLoop) \<Rightarrow>
          Inr (s\<lparr>boundaryLayers := layers, layerIndexTop := topIndex,
                 layersFromBottom :=
                   (case firstLayerWithLoops layers 0 of
                      None \<Rightarrow> layersFromBottom s
                    | Some boundaryLayerIndex \<Rightarrow> layersFromBottom s + int boundaryLayerIndex)\<rparr>))"

text \<open>
  \<^verbatim>\<open>parseInitialization\<close>: the loop \<^verbatim>\<open>for self.lineIndex in xrange(len(self.lines))\<close>,
  here over the lines still to scan and the index of the first of them. The
  \<^verbatim>\<open>return\<close> at \<^verbatim>\<open>(</extruderInitialization>)\<close> leaves the loop before the
  \<^verbatim>\<open>addLine(line)\<close> at the end of the body and without another assignment to
  \<^verbatim>\<open>self.lineIndex\<close>.
\<close>

fun parseInitializationFrom ::
  "('d, 'pt) externals \<Rightarrow> nat \<Rightarrow> string list \<Rightarrow> 'd skein \<Rightarrow> error + 'd skein" where
  "parseInitializationFrom E i [] s = Inr s"
| "parseInitializationFrom E i (line # rest) s0 =
     (let splitLine = getSplitLineBeforeBracketSemicolon E line;
          firstWord = getFirstWord E splitLine;
          s = s0\<lparr>lineIndex := i,
                 distanceFeedRate := parseSplitLine E (distanceFeedRate s0) firstWord splitLine\<rparr>;
          continue = (\<lambda>s'. parseInitializationFrom E (Suc i) rest (addLine line s'))
      in if firstWord = ''(<clipOverPerimeterWidth>''
           then (case floatArg E splitLine of Inl e \<Rightarrow> Inl e
                 | Inr r \<Rightarrow> continue (s\<lparr>clipOverPerimeterWidth := r\<rparr>))
         else if firstWord = ''(</extruderInitialization>)''
           then Inr (s\<lparr>dfr_output := dfr_output s @ [AddTagBracketedProcedure ''skin'']\<rparr>)
         else if firstWord = ''(<infillPerimeterOverlap>''
           then (case floatArg E splitLine of Inl e \<Rightarrow> Inl e
                 | Inr r \<Rightarrow> continue (s\<lparr>infillPerimeterOverlap := Some r\<rparr>))
         else if firstWord = ''(<infillWidth>''
           then (case floatArg E splitLine of Inl e \<Rightarrow> Inl e
                 | Inr r \<Rightarrow>
                     if horizontalInfillDivisionsFloat s = 0 then Inl ZeroDivisionError
                     else continue (s\<lparr>infillWidth := Some r,
                            skinInfillWidth := Some (r / horizontalInfillDivisionsFloat s)\<rparr>))
         else if firstWord = ''(<layerThickness>''
           then (case floatArg E splitLine of Inl e \<Rightarrow> Inl e
                 | Inr r \<Rightarrow> continue (s\<lparr>layerThickness := Some r\<rparr>))
         else if firstWord = ''(<maximumZFeedRatePerSecond>''
           then (case floatArg E splitLine of Inl e \<Rightarrow> Inl e
                 | Inr r \<Rightarrow> continue (s\<lparr>maximumZFeedRateMinute := 60.0 * r\<rparr>))
         else if firstWord = ''(<operatingFlowRate>''
           then (case floatArg E splitLine of Inl e \<Rightarrow> Inl e
                 | Inr r \<Rightarrow> continue (s\<lparr>oldFlowRate := Some r\<rparr>))
         else if firstWord = ''(<perimeterWidth>''
           then (case floatArg E splitLine of Inl e \<Rightarrow> Inl e
                 | Inr r \<Rightarrow> continue (s\<lparr>perimeterWidth := Some r,
                                        halfPerimeterWidth := Some (0.5 * r)\<rparr>))
         else if firstWord = ''(<travelFeedRatePerSecond>''
           then (case floatArg E splitLine of Inl e \<Rightarrow> Inl e
                 | Inr r \<Rightarrow> continue (s\<lparr>travelFeedRateMinute := 60.0 * r\<rparr>))
         else continue s)"

definition parseInitialization :: "('d, 'pt) externals \<Rightarrow> 'd skein \<Rightarrow> error + 'd skein" where
  "parseInitialization E s = parseInitializationFrom E 0 (lines s) s"

text \<open>\<^verbatim>\<open>parseLine\<close>. A line with no word returns before the final \<^verbatim>\<open>addLine\<close>, as do a
  \<^verbatim>\<open>G1\<close> inside a capture region and an \<^verbatim>\<open>M101\<close>/\<^verbatim>\<open>M103\<close> inside one.\<close>

definition parseLine :: "('d, 'pt) externals \<Rightarrow> 'd skein \<Rightarrow> string \<Rightarrow> error + 'd skein" where
  "parseLine E s line =
     (let splitLine = getSplitLineBeforeBracketSemicolon E line
      in if length splitLine < 1 then Inr s
         else
           let firstWord = splitLine ! 0
           in if firstWord = ''G1''
                then (case getFeedRateMinute E (feedRateMinute s) splitLine of
                        Inl e \<Rightarrow> Inl e
                      | Inr f \<Rightarrow>
                       (case getLocationFromSplitLine E (oldLocation s) splitLine of
                          Inl e \<Rightarrow> Inl e
                        | Inr location \<Rightarrow>
                           let s1 = s\<lparr>feedRateMinute := f, oldLocation := Some location\<rparr>
                           in if infillBoundaries s1 \<noteq> None then Inr s1
                              else (case perimeter s1 of
                                      Some perim \<Rightarrow>
                                        Inr (s1\<lparr>perimeter := Some (perim @ [dropAxis location])\<rparr>)
                                    | None \<Rightarrow> Inr (addLine line s1))))
              else if firstWord = ''(<infill>)''
                then Inr (addLine line
                       (if layerIndex s \<ge> layersFromBottom s \<and> layerIndex s = layerIndexTop s
                        then s\<lparr>infillBoundaries := Some []\<rparr> else s))
              else if firstWord = ''(</infill>)''
                then (case addSkinnedInfill E s of Inl e \<Rightarrow> Inl e
                      | Inr s1 \<Rightarrow> Inr (addLine line s1))
              else if firstWord = ''(<infillBoundary>)''
                then (case infillBoundaries s of
                        None \<Rightarrow> Inr (addLine line s)
                      | Some addrs \<Rightarrow>
                          Inr (addLine line
                            (s\<lparr>infillBoundary := Some (length (loopStore s)),
                               loopStore := loopStore s @ [[]],
                               infillBoundaries := Some (addrs @ [length (loopStore s)])\<rparr>)))
              else if firstWord = ''(<infillPoint>''
                then (case infillBoundaries s of
                        None \<Rightarrow> Inr (addLine line s)
                      | Some addrs \<Rightarrow>
                         (case getLocationFromSplitLine E None splitLine of
                            Inl e \<Rightarrow> Inl e
                          | Inr location \<Rightarrow>
                             (case infillBoundary s of
                                None \<Rightarrow> Inl AttributeError
                              | Some a \<Rightarrow>
                                  Inr (addLine line
                                    (s\<lparr>loopStore := (loopStore s)
                                        [a := loopStore s ! a @ [dropAxis location]]\<rparr>)))))
              else if firstWord = ''(<layer>''
                then Inr (addLine line (s\<lparr>layerIndex := layerIndex s + 1\<rparr>))
              else if firstWord = ''M101'' \<or> firstWord = ''M103''
                then (if infillBoundaries s \<noteq> None \<or> perimeter s \<noteq> None then Inr s
                      else Inr (addLine line s))
              else if firstWord = ''M108''
                then (if length splitLine < 2 then Inl IndexError
                      else (case getDoubleAfterFirstLetter E (splitLine ! 1) of
                              Inl e \<Rightarrow> Inl e
                            | Inr r \<Rightarrow> Inr (addLine line (s\<lparr>oldFlowRate := Some r\<rparr>))))
              else if firstWord = ''(<perimeter>''
                then Inr (addLine line
                       (if layerIndex s \<ge> layersFromBottom s
                        then s\<lparr>perimeter := Some []\<rparr> else s))
              else if firstWord = ''(<rotation>''
                then (case getRotationBySplitLine E splitLine of
                        Inl e \<Rightarrow> Inl e
                      | Inr rot \<Rightarrow>
                          Inr (addLine line
                            (s\<lparr>rotation := Some rot,
                               reverseRotation := Some (Complex (Re rot) (- Im rot))\<rparr>)))
              else if firstWord = ''(</perimeter>)''
                then (case addSkinnedPerimeter E s of Inl e \<Rightarrow> Inl e
                      | Inr s1 \<Rightarrow> Inr (addLine line s1))
              else Inr (addLine line s))"

text \<open>The body scan of \<^verbatim>\<open>getCraftedGcode\<close>:
  \<^verbatim>\<open>for self.lineIndex in xrange(self.lineIndex, len(self.lines))\<close>.\<close>

fun parseLinesFrom ::
  "('d, 'pt) externals \<Rightarrow> nat \<Rightarrow> string list \<Rightarrow> 'd skein \<Rightarrow> error + 'd skein" where
  "parseLinesFrom E i [] s = Inr s"
| "parseLinesFrom E i (line # rest) s =
     (case parseLine E (s\<lparr>lineIndex := i\<rparr>) line of
        Inl e \<Rightarrow> Inl e
      | Inr s' \<Rightarrow> parseLinesFrom E (Suc i) rest s')"

subsection \<open>The transform\<close>

text \<open>The skein as \<^verbatim>\<open>SkinSkein.__init__\<close> builds it, with the assignments that open
  \<^verbatim>\<open>getCraftedGcode\<close> (\<^verbatim>\<open>lines\<close> to \<^verbatim>\<open>verticalDivisionsFloat\<close>). \<open>boundaryLayers\<close> and
  \<open>layerIndexTop\<close> are assigned by \<^verbatim>\<open>parseBoundaries\<close> before they are read.\<close>

definition newSkinSkein ::
  "('d, 'pt) externals \<Rightarrow> string \<Rightarrow> repository \<Rightarrow> 'd skein" where
  "newSkinSkein E gcodeText repo =
     \<lparr>clipOverPerimeterWidth = 0.0,
      distanceFeedRate = newDistanceFeedRate E,
      dfr_output = [],
      feedRateMinute = 959.0,
      infillBoundaries = None,
      infillBoundary = None,
      loopStore = [],
      layerIndex = -1,
      lineIndex = 0,
      lines = getTextLines E gcodeText,
      maximumZFeedRateMinute = 60.0,
      oldFlowRate = None,
      oldLocation = None,
      perimeter = None,
      travelFeedRateMinute = 957.0,
      repository = repo,
      layersFromBottom = layersFromValue repo,
      horizontalInfillDivisionsFloat = real_of_int (horizontalInfillDivisionsValue repo),
      horizontalPerimeterDivisionsFloat = real_of_int (horizontalPerimeterDivisionsValue repo),
      verticalDivisions = max (verticalDivisionsValue repo) 1,
      verticalDivisionsFloat = real_of_int (max (verticalDivisionsValue repo) 1),
      clipLength = None,
      skinInfillInset = None,
      infillPerimeterOverlap = None,
      infillWidth = None,
      skinInfillWidth = None,
      layerThickness = None,
      perimeterWidth = None,
      halfPerimeterWidth = None,
      boundaryLayers = [],
      layerIndexTop = -1,
      rotation = None,
      reverseRotation = None\<rparr>"

definition getCraftedGcode ::
  "('d, 'pt) externals \<Rightarrow> string \<Rightarrow> repository \<Rightarrow> error + string" where
  "getCraftedGcode E gcodeText repo =
     (case parseInitialization E (newSkinSkein E gcodeText repo) of
        Inl e \<Rightarrow> Inl e
      | Inr s1 \<Rightarrow>
     (case perimeterWidth s1 of None \<Rightarrow> Inl AttributeError
      | Some pw \<Rightarrow>
     (case infillWidth s1 of None \<Rightarrow> Inl AttributeError
      | Some iw \<Rightarrow>
     (case skinInfillWidth s1 of None \<Rightarrow> Inl AttributeError
      | Some siw \<Rightarrow>
     (case infillPerimeterOverlap s1 of None \<Rightarrow> Inl AttributeError
      | Some overlap \<Rightarrow>
      let s2 = s1\<lparr>clipLength := Some (0.5 * clipOverPerimeterWidth s1 * pw),
                  skinInfillInset := Some (0.5 * (iw + siw) * (1.0 - overlap))\<rparr>
      in
     (case parseBoundaries E s2 of
        Inl e \<Rightarrow> Inl e
      | Inr s3 \<Rightarrow>
     (case parseLinesFrom E (lineIndex s3) (drop (lineIndex s3) (lines s3)) s3 of
        Inl e \<Rightarrow> Inl e
      | Inr s4 \<Rightarrow>
          Inr (getGcodeWithoutDuplication E ''M108''
                 (getvalue E (distanceFeedRate s4) (dfr_output s4))))))))))"

text \<open>Modelled from the spec: \<^verbatim>\<open>gcodec.isProcedureDoneOrFileIsEmpty\<close> is called by
  \<^verbatim>\<open>getCraftedTextFromText\<close> but is not in the source at hand. The spec has the
  short-circuit fire when the stage-completion marker is already present or the
  input is empty; whether a text carries the marker of a procedure is left to the
  imported \<open>isProcedureDone\<close>.\<close>

definition isProcedureDoneOrFileIsEmpty ::
  "('d, 'pt) externals \<Rightarrow> string \<Rightarrow> string \<Rightarrow> bool" where
  "isProcedureDoneOrFileIsEmpty E gcodeText procedure =
     (gcodeText = [] \<or> isProcedureDone E gcodeText procedure)"

text \<open>\<^verbatim>\<open>getCraftedTextFromText(gcodeText, repository=None)\<close>; a \<^verbatim>\<open>None\<close> repository is
  replaced by the one \<^verbatim>\<open>settings.getReadRepository(SkinRepository())\<close> reads.\<close>

definition getCraftedTextFromText ::
  "('d, 'pt) externals \<Rightarrow> string \<Rightarrow> repository option \<Rightarrow> error + string" where
  "getCraftedTextFromText E gcodeText repositoryOpt =
     (if isProcedureDoneOrFileIsEmpty E gcodeText ''skin'' then Inr gcodeText
      else
        let repo = (case repositoryOpt of None \<Rightarrow> getReadRepository E | Some r \<Rightarrow> r)
        in if \<not> activateSkinValue repo then Inr gcodeText
           else getCraftedGcode E gcodeText repo)"

subsection \<open>Notions used in the statements\<close>

text \<open>The z of vertical division \<open>i\<close> as both generators compute it from the z of
  \<^verbatim>\<open>self.oldLocation\<close>: \<^verbatim>\<open>bottomZ = self.oldLocation.z + self.layerThickness /
  self.verticalDivisionsFloat - self.layerThickness\<close>, then the step of \<open>divisionZ\<close>.\<close>

definition skinnedZ :: "'d skein \<Rightarrow> real \<Rightarrow> real \<Rightarrow> nat \<Rightarrow> real" where
  "skinnedZ s topZ thickness i =
     divisionZ s (topZ + thickness / verticalDivisionsFloat s - thickness) thickness i"

text \<open>The first word of a line as \<^verbatim>\<open>parseLine\<close> reads it (\<^verbatim>\<open>splitLine[0]\<close>; none for a
  line without words), and the test of \<^verbatim>\<open>parseInitialization\<close> for the
  end-of-initialization marker (on \<^verbatim>\<open>gcodec.getFirstWord\<close> of the split line).\<close>

definition lineTag :: "('d, 'pt) externals \<Rightarrow> string \<Rightarrow> string option" where
  "lineTag E line =
     (case getSplitLineBeforeBracketSemicolon E line of [] \<Rightarrow> None | w # _ \<Rightarrow> Some w)"

definition isEndOfInitialization :: "('d, 'pt) externals \<Rightarrow> string \<Rightarrow> bool" where
  "isEndOfInitialization E line =
     (getFirstWord E (getSplitLineBeforeBracketSemicolon E line) = ''(</extruderInitialization>)'')"

text \<open>Modelled from the spec: \<^verbatim>\<open>gcodec.DistanceFeedRate\<close>, \<^verbatim>\<open>gcodec.isProcedureDone\<close> and
  \<^verbatim>\<open>gcodec.getGcodeWithoutDuplication\<close> are not in the source at hand. The spec has the
  stage-completion marker tag emitted into the output and recognised in a later
  input: the text rendered from an output that holds the tag of the skin procedure
  carries the marker of that procedure.\<close>

definition tagRecognised :: "('d, 'pt) externals \<Rightarrow> bool" where
  "tagRecognised E =
     (\<forall>d cmds. AddTagBracketedProcedure ''skin'' \<in> set cmds \<longrightarrow>
        isProcedureDone E (getGcodeWithoutDuplication E ''M108'' (getvalue E d cmds)) ''skin'')"

text \<open>The commands that move the head, as opposed to lines and tags.\<close>

fun isMovementCmd :: "out_cmd \<Rightarrow> bool" where
  "isMovementCmd (AddGcodeFromFeedRateThreadZ f thread t zz) = True"
| "isMovementCmd (AddGcodeMovementZWithFeedRate f p zz) = True"
| "isMovementCmd c = False"

text \<open>The thread of the last \<^verbatim>\<open>addGcodeFromFeedRateThreadZ\<close> among some commands, and
  the position the infill generator leaves after emitting them with a given upper z:
  the last point of that thread at the upper z, or the old position when no thread
  was emitted. \<open>pathCmds\<close> are the commands of one infill path, with or without the
  two hops.\<close>

fun lastThread :: "out_cmd list \<Rightarrow> complex list option" where
  "lastThread [] = None"
| "lastThread (c # cmds) =
     (case lastThread cmds of
        Some r \<Rightarrow> Some r
      | None \<Rightarrow> (case c of AddGcodeFromFeedRateThreadZ f r t zz \<Rightarrow> Some r | _ \<Rightarrow> None))"

definition positionAfter :: "vector3 option \<Rightarrow> real \<Rightarrow> out_cmd list \<Rightarrow> vector3 option" where
  "positionAfter old upperZ cmds =
     (case lastThread cmds of
        None \<Rightarrow> old
      | Some r \<Rightarrow> Some (Vector3 (Re (last r)) (Im (last r)) upperZ))"

definition pathCmds ::
  "('d, 'pt) externals \<Rightarrow> 'd skein \<Rightarrow> real \<Rightarrow> real \<Rightarrow> complex list \<Rightarrow> out_cmd list" where
  "pathCmds E s upperZ zz r =
    (if upperZ > zz \<and> hopWhenExtrudingInfillValue (repository s)
     then [AddGcodeMovementZWithFeedRate (maximumZFeedRateMinute s) (hd r) upperZ,
           AddGcodeFromFeedRateThreadZ (feedRateMinute s) r (travelFeedRateMinute s) zz,
           AddGcodeMovementZWithFeedRate (maximumZFeedRateMinute s) (last r) upperZ]
     else [AddGcodeFromFeedRateThreadZ (feedRateMinute s) r (travelFeedRateMinute s) zz])"

text \<open>The z of every thread emitted, in order.\<close>

fun emittedZs :: "out_cmd list \<Rightarrow> real list" where
  "emittedZs [] = []"
| "emittedZs (AddGcodeFromFeedRateThreadZ f thread t zz # cmds) = zz # emittedZs cmds"
| "emittedZs (c # cmds) = emittedZs cmds"

subsection \<open>An instance of the imported functions, and inputs to run the code on\<close>

text \<open>A small implementation of the imported functions, used to run the embedded
  code on concrete inputs: lines are split at newlines and words at blanks, numbers
  are unsigned decimal integers, coordinates are words such as \<^verbatim>\<open>X12\<close>, the inset
  of a loop is the loop itself, and clipping keeps the path.\<close>

fun wordsFrom :: "string \<Rightarrow> string \<Rightarrow> string list" where
  "wordsFrom w [] = (if w = [] then [] else [w])"
| "wordsFrom w (c # cs) =
     (if c = CHR '' '' then (if w = [] then wordsFrom [] cs else w # wordsFrom [] cs)
      else wordsFrom (w @ [c]) cs)"

fun linesFrom :: "string \<Rightarrow> string \<Rightarrow> string list" where
  "linesFrom w [] = [w]"
| "linesFrom w (c # cs) =
     (if c = CHR 0x0A then w # linesFrom [] cs else linesFrom (w @ [c]) cs)"

fun digitsValue :: "nat \<Rightarrow> string \<Rightarrow> nat option" where
  "digitsValue n [] = Some n"
| "digitsValue n (c # cs) =
     (let d = (of_char c :: nat)
      in if 48 \<le> d \<and> d \<le> 57 then digitsValue (10 * n + (d - 48)) cs else None)"

definition examplePyfloat :: "string \<Rightarrow> real option" where
  "examplePyfloat w = (if w = [] then None else map_option real (digitsValue 0 w))"

text \<open>The coordinate of a line after a letter (\<^verbatim>\<open>X12\<close>), or the old value when the
  line has no word with that letter; a location takes its three coordinates so, from
  the old location or the origin.\<close>

fun exampleCoordinate :: "char \<Rightarrow> string list \<Rightarrow> real \<Rightarrow> error + real" where
  "exampleCoordinate c [] v = Inr v"
| "exampleCoordinate c (w # ws) v =
     (case w of
        [] \<Rightarrow> exampleCoordinate c ws v
      | a # digits \<Rightarrow>
          if a = c
          then (case examplePyfloat digits of None \<Rightarrow> Inl ValueError | Some r \<Rightarrow> Inr r)
          else exampleCoordinate c ws v)"

definition exampleLocation :: "vector3 option \<Rightarrow> string list \<Rightarrow> error + vector3" where
  "exampleLocation oldLoc splitLine =
     (let old = (case oldLoc of None \<Rightarrow> Vector3 0 0 0 | Some l \<Rightarrow> l)
      in case exampleCoordinate CHR ''X'' (tl splitLine) (vec_x old) of
           Inl e \<Rightarrow> Inl e
         | Inr a \<Rightarrow>
            (case exampleCoordinate CHR ''Y'' (tl splitLine) (vec_y old) of
               Inl e \<Rightarrow> Inl e
             | Inr b \<Rightarrow>
                (case exampleCoordinate CHR ''Z'' (tl splitLine) (vec_z old) of
                   Inl e \<Rightarrow> Inl e
                 | Inr c \<Rightarrow> Inr (Vector3 a b c))))"

fun exampleRender :: "out_cmd \<Rightarrow> string" where
  "exampleRender (AddLine line) = line @ [CHR 0x0A]"
| "exampleRender (AddTagBracketedProcedure p) =
     ''(<procedureName> '' @ p @ '' </procedureName>)'' @ [CHR 0x0A]"
| "exampleRender (AddGcodeFromFeedRateThreadZ f thread t zz) = ''G1'' @ [CHR 0x0A]"
| "exampleRender (AddGcodeMovementZWithFeedRate f p zz) = ''G1'' @ [CHR 0x0A]"

definition exampleExternals :: "(unit, unit) externals" where
  "exampleExternals =
     \<lparr>isProcedureDone =
        (\<lambda>gcodeText procedure.
           (''(<procedureName> '' @ procedure @ '' </procedureName>)'')
             \<in> set (linesFrom [] gcodeText)),
      getReadRepository =
        \<lparr>activateSkinValue = False, horizontalInfillDivisionsValue = 2,
         horizontalPerimeterDivisionsValue = 1, verticalDivisionsValue = 2,
         hopWhenExtrudingInfillValue = False, layersFromValue = 1\<rparr>,
      getTextLines = linesFrom [],
      getSplitLineBeforeBracketSemicolon = wordsFrom [],
      getFirstWord = (\<lambda>splitLine. case splitLine of [] \<Rightarrow> [] | w # _ \<Rightarrow> w),
      pyfloat = examplePyfloat,
      getFeedRateMinute = (\<lambda>f splitLine. Inr f),
      getLocationFromSplitLine = exampleLocation,
      getDoubleAfterFirstLetter =
        (\<lambda>w. case examplePyfloat (tl w) of None \<Rightarrow> Inl ValueError | Some r \<Rightarrow> Inr r),
      getRotationBySplitLine = (\<lambda>splitLine. Inr 1),
      getFourSignificantFigures =
        (\<lambda>r. if r = 1 then ''1'' else if r = 2 then ''2''
             else if r = 1 / 2 then ''0.5'' else ''x''),
      getGcodeWithoutDuplication = (\<lambda>w gcodeText. gcodeText),
      newDistanceFeedRate = (),
      parseSplitLine = (\<lambda>d firstWord splitLine. d),
      getvalue = (\<lambda>d cmds. concat (map exampleRender cmds)),
      getLargestInsetLoopFromLoop = (\<lambda>loop radius. loop),
      getClippedSimplifiedLoopPath = (\<lambda>cl loopPath hw. loopPath),
      getRotatedComplexes = (\<lambda>r ps. map (\<lambda>p. r * p) ps),
      getInfillDictionary =
        (\<lambda>aroundInset aroundWidth inset siw rotatedLoops. ([(0, [0, 1])], ())),
      getSegmentsFromXIntersections =
        (\<lambda>xs yy. [[Complex (hd xs) yy, Complex (last xs) yy]]),
      getPathsFromEndpoints = (\<lambda>endpoints w pt aw. [endpoints])\<rparr>"

definition exampleRepository :: repository where
  "exampleRepository =
     \<lparr>activateSkinValue = True, horizontalInfillDivisionsValue = 1,
      horizontalPerimeterDivisionsValue = 1, verticalDivisionsValue = 2,
      hopWhenExtrudingInfillValue = False, layersFromValue = 0\<rparr>"

definition unlines :: "string list \<Rightarrow> string" where
  "unlines ls = concat (map (\<lambda>l. l @ [CHR 0x0A]) ls)"

definition exampleHeader :: "string list" where
  "exampleHeader =
     [''(<layerThickness> 1 )'', ''(<perimeterWidth> 1 )'', ''(<infillWidth> 1 )'',
      ''(<infillPerimeterOverlap> 0 )'', ''(<operatingFlowRate> 2 )'']"

definition exampleText :: string where
  "exampleText = unlines (exampleHeader @ [''(</extruderInitialization>)''])"

definition exampleCrafted :: string where
  "exampleCrafted =
     unlines (exampleHeader @
       [''(<procedureName> skin </procedureName>)'', ''(</extruderInitialization>)''])"

text \<open>A skein in the middle of the body scan: header values parsed, the head at
  \<open>z = 2\<close>, layer thickness \<open>1\<close>, two vertical and two horizontal perimeter
  divisions.\<close>

definition exampleSkein :: "unit skein" where
  "exampleSkein =
     (newSkinSkein exampleExternals []
        (exampleRepository\<lparr>horizontalPerimeterDivisionsValue := 2\<rparr>))
       \<lparr>layerThickness := Some 1, perimeterWidth := Some 1, halfPerimeterWidth := Some (1 / 2),
        infillWidth := Some 1, skinInfillWidth := Some 1, infillPerimeterOverlap := Some 0,
        clipLength := Some 0, skinInfillInset := Some 1,
        oldFlowRate := Some 2, oldLocation := Some (Vector3 0 0 2),
        rotation := Some 1, reverseRotation := Some 1\<rparr>"

definition exampleLoop :: "complex list" where
  "exampleLoop = [0, 1, Complex 1 1, 0]"

text \<open>The example skein at an end-of-infill marker, with one captured boundary.\<close>

definition exampleInfillSkein :: "unit skein" where
  "exampleInfillSkein =
     exampleSkein\<lparr>infillBoundaries := Some [0], infillBoundary := Some 0,
                  loopStore := [exampleLoop]\<rparr>"

definition exampleInfillCmds :: "out_cmd list" where
  "exampleInfillCmds =
     [AddGcodeFromFeedRateThreadZ 959 [Complex 0 (1 / 2), Complex 1 (1 / 2)] 957 (3 / 2),
      AddGcodeFromFeedRateThreadZ 959 [Complex 0 0, Complex 1 0] 957 2]"

text \<open>A body of four layers, of which only the third has a boundary loop, scanned
  with a configured starting layer of \<open>1\<close>.\<close>

definition exampleLayers :: "string list" where
  "exampleLayers =
     [''(<layer> 0 )'', ''(<layer> 1 )'', ''(<perimeter> outer )'',
      ''(<layer> 2 )'', ''(<boundaryPoint> X0 Y0 Z2 )'', ''(</boundaryPerimeter>)'',
      ''(<perimeter> outer )'', ''(<layer> 3 )'', ''(<perimeter> outer )'']"

definition exampleBodySkein :: "unit skein" where
  "exampleBodySkein = exampleSkein\<lparr>lines := exampleLayers, layersFromBottom := 1\<rparr>"

text \<open>Modelled from the spec: \<^verbatim>\<open>gcodec.getGcodeWithoutDuplication\<close> is not in the source
  at hand. The spec has the output assembler deduplicate consecutive flow-rate
  commands at the end: of the lines whose first word is the given word, one that
  repeats the line of that kind last kept is dropped; every other line is kept.
  \<open>exampleDeduplicating\<close> is the example instance with this pass in place of the
  identity.\<close>

definition linesOfText :: "string \<Rightarrow> string list" where
  "linesOfText t = (let ls = linesFrom [] t in if last ls = [] then butlast ls else ls)"

fun dropRepeated :: "string \<Rightarrow> string option \<Rightarrow> string list \<Rightarrow> string list" where
  "dropRepeated w kept [] = []"
| "dropRepeated w kept (l # ls) =
     (if (case wordsFrom [] l of [] \<Rightarrow> False | f # _ \<Rightarrow> f = w)
      then (if kept = Some l then dropRepeated w kept ls
            else l # dropRepeated w (Some l) ls)
      else l # dropRepeated w kept ls)"

definition exampleDeduplicating :: "(unit, unit) externals" where
  "exampleDeduplicating =
     exampleExternals\<lparr>getGcodeWithoutDuplication :=
       (\<lambda>w gcodeText. unlines (dropRepeated w None (linesOfText gcodeText)))\<rparr>"

text \<open>A text with one perimeter in its only layer, and a repository with a single
  vertical and a single horizontal division.\<close>

definition exampleSingleRepository :: repository where
  "exampleSingleRepository = exampleRepository\<lparr>verticalDivisionsValue := 1\<rparr>"

definition examplePerimeterText :: string where
  "examplePerimeterText =
     unlines (exampleHeader @
       [''(</extruderInitialization>)'', ''(<layer> 0 )'', ''M108 S2'',
        ''(<perimeter> outer )'', ''G1 X0 Y0 Z1'', ''G1 X1 Y0 Z1'', ''G1 X1 Y1 Z1'',
        ''G1 X0 Y0 Z1'', ''(</perimeter>)''])"

section \<open>Properties\<close>

lemmas example_defs =
  exampleExternals_def exampleRepository_def exampleHeader_def exampleText_def
  exampleCrafted_def unlines_def examplePyfloat_def exampleLocation_def

lemmas skein_defs = exampleSkein_def exampleLoop_def newSkinSkein_def

lemmas run_defs =
  getCraftedTextFromText_def isProcedureDoneOrFileIsEmpty_def getCraftedGcode_def
  parseInitialization_def newSkinSkein_def floatArg_def addLine_def parseBoundaries_def
  parseLine_def Let_def

subsection \<open>Division counts\<close>

text \<open>
  Claim C9. Of the three division counts only the vertical one is clamped:
  \<^verbatim>\<open>getCraftedGcode\<close> takes \<^verbatim>\<open>max(repository.verticalDivisions.value, 1)\<close> but
  converts the two horizontal counts as they are. With a horizontal count of \<open>0\<close>
  the count the transform uses is \<open>0\<close>, and the run of the example text stops with
  the \<^verbatim>\<open>ZeroDivisionError\<close> of \<^verbatim>\<open>self.infillWidth / self.horizontalInfillDivisionsFloat\<close>.
\<close>

theorem horizontal_division_counts_not_clamped:
  "verticalDivisions
     (newSkinSkein exampleExternals exampleText
        (exampleRepository\<lparr>verticalDivisionsValue := 0\<rparr>)) = 1 \<and>
   horizontalPerimeterDivisionsFloat
     (newSkinSkein exampleExternals exampleText
        (exampleRepository\<lparr>horizontalPerimeterDivisionsValue := 0\<rparr>)) = 0 \<and>
   horizontalInfillDivisionsFloat
     (newSkinSkein exampleExternals exampleText
        (exampleRepository\<lparr>horizontalInfillDivisionsValue := 0\<rparr>)) = 0 \<and>
   getCraftedTextFromText exampleExternals exampleText
     (Some (exampleRepository\<lparr>horizontalInfillDivisionsValue := 0\<rparr>))
     = Inl ZeroDivisionError"
  by (simp add: run_defs example_defs)

subsection \<open>The skinned perimeter generator\<close>

lemma insetPerimeters_length:
  "insetPerimeters E s th ra r n = Inr ps \<Longrightarrow> length ps = n"
  by (induction n arbitrary: r ps) (auto split: sum.splits)

lemma getIsMinimumSides_iff:
  "getIsMinimumSides ls n \<longleftrightarrow> (\<forall>l \<in> set ls. n \<le> length l)"
  by (induction ls) auto

lemma foldl_addPerimeterLoop:
  "foldl (\<lambda>st p. addPerimeterLoop p zz st) s ps =
     s\<lparr>dfr_output := dfr_output s @
        map (\<lambda>p. AddGcodeFromFeedRateThreadZ (feedRateMinute s) p (travelFeedRateMinute s) zz) ps\<rparr>"
  by (induction ps arbitrary: s) (simp_all add: addPerimeterLoop_def)

lemma foldl_addPerimeterLoops:
  "foldl (\<lambda>st i. addPerimeterLoops ps (f i) st) s vs =
     s\<lparr>dfr_output := dfr_output s @
        concat (map (\<lambda>i. map (\<lambda>p. AddGcodeFromFeedRateThreadZ (feedRateMinute s) p
                                   (travelFeedRateMinute s) (f i)) ps) vs)\<rparr>"
  by (induction vs arbitrary: s) (simp_all add: addPerimeterLoops_def foldl_addPerimeterLoop)

lemma foldl_addPerimeterLoop_original:
  "foldl (\<lambda>st i. addPerimeterLoop perim (f i) st) s vs =
     s\<lparr>dfr_output := dfr_output s @
        map (\<lambda>i. AddGcodeFromFeedRateThreadZ (feedRateMinute s) perim (travelFeedRateMinute s) (f i)) vs\<rparr>"
  by (induction vs arbitrary: s) (simp_all add: addPerimeterLoop_def)

lemma emitSkinnedPerimeter_eq:
  "emitSkinnedPerimeter E s perim ps bottomZ thickness flow =
     s\<lparr>dfr_output := dfr_output s @
         (if getIsMinimumSides ps 3
          then flowRateLine E
                 (flow / verticalDivisionsFloat s / horizontalPerimeterDivisionsFloat s) #
               concat (map (\<lambda>i. map (\<lambda>p. AddGcodeFromFeedRateThreadZ (feedRateMinute s) p
                           (travelFeedRateMinute s) (divisionZ s bottomZ thickness i)) ps)
                         [0 ..< nat (verticalDivisions s)])
          else flowRateLine E (flow / verticalDivisionsFloat s) #
               map (\<lambda>i. AddGcodeFromFeedRateThreadZ (feedRateMinute s) perim
                           (travelFeedRateMinute s) (divisionZ s bottomZ thickness i))
                   [0 ..< nat (verticalDivisions s)])
         @ [flowRateLine E flow],
       perimeter := None\<rparr>"
  by (simp add: emitSkinnedPerimeter_def Let_def foldl_addPerimeterLoops
      foldl_addPerimeterLoop_original addFlowRateLine_def)

lemma addSkinnedPerimeter_run:
  assumes "perimeter s = Some perim" and "oldLocation s = Some loc"
    and "layerThickness s = Some thickness" and "perimeterWidth s = Some pw"
    and "halfPerimeterWidth s = Some hw" and "oldFlowRate s = Some flow"
    and "verticalDivisionsFloat s \<noteq> 0" and "horizontalPerimeterDivisionsFloat s \<noteq> 0"
    and "insetPerimeters E s (butlast perim) (pw / horizontalPerimeterDivisionsFloat s)
           (0.5 * (pw / horizontalPerimeterDivisionsFloat s) - hw)
           (nat (horizontalPerimeterDivisionsValue (repository s))) = Inr ps"
  shows "addSkinnedPerimeter E s =
     Inr (s\<lparr>dfr_output := dfr_output s @
            (if getIsMinimumSides ps 3
             then flowRateLine E (flow / verticalDivisionsFloat s / horizontalPerimeterDivisionsFloat s) #
                  concat (map (\<lambda>i. map (\<lambda>p. AddGcodeFromFeedRateThreadZ (feedRateMinute s) p
                              (travelFeedRateMinute s) (skinnedZ s (vec_z loc) thickness i)) ps)
                            [0 ..< nat (verticalDivisions s)])
             else flowRateLine E (flow / verticalDivisionsFloat s) #
                  map (\<lambda>i. AddGcodeFromFeedRateThreadZ (feedRateMinute s) perim
                              (travelFeedRateMinute s) (skinnedZ s (vec_z loc) thickness i))
                      [0 ..< nat (verticalDivisions s)])
            @ [flowRateLine E flow],
          perimeter := None\<rparr>)"
  unfolding addSkinnedPerimeter_def Let_def
  apply (simp only: assms option.case sum.case if_False)
  apply (simp add: emitSkinnedPerimeter_eq skinnedZ_def)
  done

lemma skinnedZ_eq:
  assumes "verticalDivisionsFloat s = real_of_int V" and "1 \<le> V"
  shows "skinnedZ s topZ thickness i = topZ - thickness + (real i + 1) * thickness / real_of_int V"
  using assms by (simp add: skinnedZ_def divisionZ_def field_simps)


lemma length_concat_map_const:
  "length (concat (map (\<lambda>i. map (g i) ps) vs)) = length vs * length ps"
  by (induction vs) simp_all

lemma skinnedZ_inj:
  assumes "verticalDivisionsFloat s = real_of_int V" and "1 \<le> V" and "thickness \<noteq> 0"
  shows "inj (skinnedZ s topZ thickness)"
proof (rule injI)
  fix i j assume "skinnedZ s topZ thickness i = skinnedZ s topZ thickness j"
  then have "(real i + 1) * thickness / real_of_int V = (real j + 1) * thickness / real_of_int V"
    by (simp add: skinnedZ_eq [OF assms(1,2)])
  with assms(2,3) show "i = j" by simp
qed

text \<open>
  Claim C3. When one of the computed inset loops has fewer than 3 points,
  \<^verbatim>\<open>addSkinnedPerimeter\<close> emits exactly \<open>V\<close> threads (\<open>V\<close> the clamped vertical division
  count), each of them the captured perimeter itself and not an inset, between a
  flow rate line of the tracked flow rate divided by \<open>V\<close> alone and a line
  restoring the tracked flow rate.
\<close>

theorem addSkinnedPerimeter_fallback:
  assumes "perimeter s = Some perim" and "oldLocation s = Some loc"
    and "layerThickness s = Some thickness" and "perimeterWidth s = Some pw"
    and "halfPerimeterWidth s = Some hw" and "oldFlowRate s = Some flow"
    and V: "verticalDivisionsFloat s = real_of_int (verticalDivisions s)"
           "1 \<le> verticalDivisions s"
    and H: "horizontalPerimeterDivisionsFloat s =
              real_of_int (horizontalPerimeterDivisionsValue (repository s))"
    and ins: "insetPerimeters E s (butlast perim) (pw / horizontalPerimeterDivisionsFloat s)
           (0.5 * (pw / horizontalPerimeterDivisionsFloat s) - hw)
           (nat (horizontalPerimeterDivisionsValue (repository s))) = Inr ps"
    and degenerate: "\<exists>loop \<in> set ps. length loop < 3"
  shows "\<exists>loopCmds.
     addSkinnedPerimeter E s =
       Inr (s\<lparr>dfr_output := dfr_output s
                @ [flowRateLine E (flow / real_of_int (verticalDivisions s))]
                @ loopCmds @ [flowRateLine E flow],
              perimeter := None\<rparr>) \<and>
     loopCmds =
       map (\<lambda>i. AddGcodeFromFeedRateThreadZ (feedRateMinute s) perim (travelFeedRateMinute s)
                   (skinnedZ s (vec_z loc) thickness i))
           [0 ..< nat (verticalDivisions s)] \<and>
     length loopCmds = nat (verticalDivisions s)"
proof -
  from degenerate have notmin: "\<not> getIsMinimumSides ps 3"
    by (force simp: getIsMinimumSides_iff not_le)
  from degenerate have "ps \<noteq> []" by auto
  with insetPerimeters_length [OF ins]
  have "nat (horizontalPerimeterDivisionsValue (repository s)) \<noteq> 0" by auto
  with H have Hnz: "horizontalPerimeterDivisionsFloat s \<noteq> 0" by simp
  from V have Vnz: "verticalDivisionsFloat s \<noteq> 0" by simp
  from addSkinnedPerimeter_run [OF assms(1-6) Vnz Hnz ins] notmin V(1)
  show ?thesis by simp
qed

text \<open>
  Claim C2, as amended. When every computed inset loop has at least 3 points and the
  horizontal perimeter division count \<open>H\<close> is at least 1, \<^verbatim>\<open>addSkinnedPerimeter\<close>
  emits exactly \<open>V * H\<close> threads: the \<open>H\<close> inset loops, replayed at each of the \<open>V\<close>
  heights \<open>z i = top - thickness + (i + 1) * thickness / V\<close> for \<open>i < V\<close>, where
  \<open>top\<close> is the z of the tracked position. The first height is
  \<open>top - thickness + thickness / V\<close>, the last is \<open>top\<close>, and the heights are pairwise
  distinct when the thickness is not \<open>0\<close>.
\<close>

theorem addSkinnedPerimeter_divisions:
  assumes "perimeter s = Some perim" and "oldLocation s = Some loc"
    and "layerThickness s = Some thickness" and "perimeterWidth s = Some pw"
    and "halfPerimeterWidth s = Some hw" and "oldFlowRate s = Some flow"
    and V: "verticalDivisionsFloat s = real_of_int (verticalDivisions s)"
           "1 \<le> verticalDivisions s"
    and H: "horizontalPerimeterDivisionsFloat s =
              real_of_int (horizontalPerimeterDivisionsValue (repository s))"
           "1 \<le> horizontalPerimeterDivisionsValue (repository s)"
    and ins: "insetPerimeters E s (butlast perim) (pw / horizontalPerimeterDivisionsFloat s)
           (0.5 * (pw / horizontalPerimeterDivisionsFloat s) - hw)
           (nat (horizontalPerimeterDivisionsValue (repository s))) = Inr ps"
    and sides: "\<forall>loop \<in> set ps. 3 \<le> length loop"
  shows "\<exists>loopCmds.
     addSkinnedPerimeter E s =
       Inr (s\<lparr>dfr_output := dfr_output s
                @ [flowRateLine E (flow / real_of_int (verticalDivisions s)
                     / real_of_int (horizontalPerimeterDivisionsValue (repository s)))]
                @ loopCmds @ [flowRateLine E flow],
              perimeter := None\<rparr>) \<and>
     loopCmds =
       concat (map (\<lambda>i. map (\<lambda>p. AddGcodeFromFeedRateThreadZ (feedRateMinute s) p
                                  (travelFeedRateMinute s) (skinnedZ s (vec_z loc) thickness i)) ps)
                 [0 ..< nat (verticalDivisions s)]) \<and>
     length ps = nat (horizontalPerimeterDivisionsValue (repository s)) \<and>
     length loopCmds =
       nat (verticalDivisions s) * nat (horizontalPerimeterDivisionsValue (repository s)) \<and>
     (\<forall>i. skinnedZ s (vec_z loc) thickness i =
            vec_z loc - thickness + (real i + 1) * thickness / real_of_int (verticalDivisions s)) \<and>
     skinnedZ s (vec_z loc) thickness 0 =
       vec_z loc - thickness + thickness / real_of_int (verticalDivisions s) \<and>
     skinnedZ s (vec_z loc) thickness (nat (verticalDivisions s) - 1) = vec_z loc \<and>
     (thickness \<noteq> 0 \<longrightarrow> inj (skinnedZ s (vec_z loc) thickness))"
proof -
  from sides have minimum: "getIsMinimumSides ps 3"
    by (simp add: getIsMinimumSides_iff)
  from H have Hnz: "horizontalPerimeterDivisionsFloat s \<noteq> 0" by simp
  from V have Vnz: "verticalDivisionsFloat s \<noteq> 0" by simp
  note zeq = skinnedZ_eq [OF V]
  have len: "length ps = nat (horizontalPerimeterDivisionsValue (repository s))"
    by (rule insetPerimeters_length [OF ins])
  have top: "skinnedZ s (vec_z loc) thickness (nat (verticalDivisions s) - 1) = vec_z loc"
    using V(2) by (simp add: zeq)
  have first: "skinnedZ s (vec_z loc) thickness 0 =
       vec_z loc - thickness + thickness / real_of_int (verticalDivisions s)"
    by (simp add: zeq)
  have distinct: "thickness \<noteq> 0 \<longrightarrow> inj (skinnedZ s (vec_z loc) thickness)"
    using skinnedZ_inj [OF V] by blast
  from addSkinnedPerimeter_run [OF assms(1-6) Vnz Hnz ins] minimum V(1) H(1)
  have run: "addSkinnedPerimeter E s =
       Inr (s\<lparr>dfr_output := dfr_output s
                @ [flowRateLine E (flow / real_of_int (verticalDivisions s)
                     / real_of_int (horizontalPerimeterDivisionsValue (repository s)))]
                @ concat (map (\<lambda>i. map (\<lambda>p. AddGcodeFromFeedRateThreadZ (feedRateMinute s) p
                                  (travelFeedRateMinute s) (skinnedZ s (vec_z loc) thickness i)) ps)
                 [0 ..< nat (verticalDivisions s)]) @ [flowRateLine E flow],
              perimeter := None\<rparr>)"
    by simp
  show ?thesis
    using run len top first distinct zeq
    by (simp add: length_concat_map_const)
qed


text \<open>
  Claim C2 as stated gives the heights the span \<open>[top - thickness, top - thickness / V]\<close>.
  On the example skein (\<open>top = 2\<close>, \<open>thickness = 1\<close>, \<open>V = 2\<close>, \<open>H = 2\<close>) the four
  threads are emitted at \<open>3/2, 3/2, 2, 2\<close>: the upper two lie above \<open>top - thickness / V\<close>
  and none is at \<open>top - thickness\<close>.
\<close>

theorem addSkinnedPerimeter_span_counterexample:
  "\<exists>s'. addSkinnedPerimeter exampleExternals (exampleSkein\<lparr>perimeter := Some exampleLoop\<rparr>) = Inr s' \<and>
        emittedZs (dfr_output s') = [3 / 2, 3 / 2, 2, 2] \<and>
        \<not> (\<forall>zz \<in> set (emittedZs (dfr_output s')). 2 - 1 \<le> zz \<and> zz \<le> 2 - 1 / 2)"
  by (simp add: addSkinnedPerimeter_def emitSkinnedPerimeter_def
      getClippedSimplifiedLoopPathByLoop_def Let_def
      skein_defs example_defs numeral_2_eq_2 addFlowRateLine_def flowRateLine_def
      addPerimeterLoops_def addPerimeterLoop_def divisionZ_def)

theorem addSkinnedPerimeter_divisions_witness:
  "\<exists>loopCmds.
     addSkinnedPerimeter exampleExternals (exampleSkein\<lparr>perimeter := Some exampleLoop\<rparr>) =
       Inr (exampleSkein\<lparr>dfr_output := [AddLine ''M108 S0.5''] @ loopCmds @ [AddLine ''M108 S2''],
              perimeter := None\<rparr>) \<and>
     length loopCmds = 4 \<and>
     emittedZs loopCmds = [3 / 2, 3 / 2, 2, 2]"
proof -
  let ?s = "exampleSkein\<lparr>perimeter := Some exampleLoop\<rparr>"
  let ?p = "[0, 1, Complex 1 1, 0] :: complex list"
  have h1: "perimeter ?s = Some exampleLoop" by simp
  have h2: "oldLocation ?s = Some (Vector3 0 0 2)" by (simp add: skein_defs)
  have h3: "layerThickness ?s = Some 1" by (simp add: skein_defs)
  have h4: "perimeterWidth ?s = Some 1" by (simp add: skein_defs)
  have h5: "halfPerimeterWidth ?s = Some (1 / 2)" by (simp add: skein_defs)
  have h6: "oldFlowRate ?s = Some 2" by (simp add: skein_defs)
  have h7: "verticalDivisionsFloat ?s = real_of_int (verticalDivisions ?s)"
    by (simp add: skein_defs)
  have h8: "1 \<le> verticalDivisions ?s" by (simp add: skein_defs)
  have h9: "horizontalPerimeterDivisionsFloat ?s =
              real_of_int (horizontalPerimeterDivisionsValue (repository ?s))"
    by (simp add: skein_defs)
  have h10: "1 \<le> horizontalPerimeterDivisionsValue (repository ?s)"
    by (simp add: skein_defs example_defs)
  have h11: "insetPerimeters exampleExternals ?s (butlast exampleLoop)
           (1 / horizontalPerimeterDivisionsFloat ?s)
           (0.5 * (1 / horizontalPerimeterDivisionsFloat ?s) - 1 / 2)
           (nat (horizontalPerimeterDivisionsValue (repository ?s))) = Inr [?p, ?p]"
    by (simp add: skein_defs example_defs numeral_2_eq_2 getClippedSimplifiedLoopPathByLoop_def)
  have h12: "\<forall>loop \<in> set [?p, ?p]. 3 \<le> length loop" by simp
  from addSkinnedPerimeter_divisions [OF h1 h2 h3 h4 h5 h6 h7 h8 h9 h10 h11 h12]
  show ?thesis
    by (simp add: skein_defs example_defs flowRateLine_def numeral_2_eq_2 skinnedZ_def divisionZ_def)
qed

theorem addSkinnedPerimeter_fallback_witness:
  "addSkinnedPerimeter exampleExternals (exampleSkein\<lparr>perimeter := Some [0, 1]\<rparr>) =
     Inr (exampleSkein\<lparr>dfr_output :=
            [AddLine ''M108 S1'',
             AddGcodeFromFeedRateThreadZ 959 [0, 1] 957 (3 / 2),
             AddGcodeFromFeedRateThreadZ 959 [0, 1] 957 2,
             AddLine ''M108 S2''],
          perimeter := None\<rparr>)"
proof -
  let ?s = "exampleSkein\<lparr>perimeter := Some [0, 1]\<rparr>"
  let ?p = "[0, 0] :: complex list"
  have h1: "perimeter ?s = Some [0, 1]" by simp
  have h2: "oldLocation ?s = Some (Vector3 0 0 2)" by (simp add: skein_defs)
  have h3: "layerThickness ?s = Some 1" by (simp add: skein_defs)
  have h4: "perimeterWidth ?s = Some 1" by (simp add: skein_defs)
  have h5: "halfPerimeterWidth ?s = Some (1 / 2)" by (simp add: skein_defs)
  have h6: "oldFlowRate ?s = Some 2" by (simp add: skein_defs)
  have h7: "verticalDivisionsFloat ?s = real_of_int (verticalDivisions ?s)"
    by (simp add: skein_defs)
  have h8: "1 \<le> verticalDivisions ?s" by (simp add: skein_defs)
  have h9: "horizontalPerimeterDivisionsFloat ?s =
              real_of_int (horizontalPerimeterDivisionsValue (repository ?s))"
    by (simp add: skein_defs)
  have h11: "insetPerimeters exampleExternals ?s (butlast [0, 1])
           (1 / horizontalPerimeterDivisionsFloat ?s)
           (0.5 * (1 / horizontalPerimeterDivisionsFloat ?s) - 1 / 2)
           (nat (horizontalPerimeterDivisionsValue (repository ?s))) = Inr [?p, ?p]"
    by (simp add: skein_defs example_defs numeral_2_eq_2 getClippedSimplifiedLoopPathByLoop_def)
  have h12: "\<exists>loop \<in> set [?p, ?p]. length loop < 3" by simp
  from addSkinnedPerimeter_fallback [OF h1 h2 h3 h4 h5 h6 h7 h8 h9 h11 h12]
  show ?thesis
    by (simp add: skein_defs example_defs flowRateLine_def numeral_2_eq_2 skinnedZ_def divisionZ_def)
qed


subsection \<open>The skinned infill generator, and the flow rate around a block\<close>

lemma lastThread_append:
  "lastThread (c1 @ c2) = (case lastThread c2 of Some r \<Rightarrow> Some r | None \<Rightarrow> lastThread c1)"
  by (induction c1) (auto split: option.splits)

lemma positionAfter_append:
  "positionAfter (positionAfter old upperZ c1) upperZ c2 = positionAfter old upperZ (c1 @ c2)"
  by (simp add: positionAfter_def lastThread_append split: option.splits)

lemma positionAfter_Nil [simp]: "positionAfter old upperZ [] = old"
  by (simp add: positionAfter_def)

lemma positionAfter_z:
  "old = Some loc \<Longrightarrow> vec_z loc = upperZ \<Longrightarrow>
     \<exists>loc'. positionAfter old upperZ cmds = Some loc' \<and> vec_z loc' = upperZ"
  by (simp add: positionAfter_def split: option.splits)

lemma pathCmds_movement: "list_all isMovementCmd (pathCmds E s upperZ zz r)"
  by (simp add: pathCmds_def)

lemma pathCmds_lastThread: "lastThread (pathCmds E s upperZ zz r) = Some r"
  by (simp add: pathCmds_def)

lemma addInfillPath_effect:
  assumes "addInfillPath E upperZ zz infillPath s = Inr s'"
  shows "\<exists>rot. rotation s = Some rot \<and>
     s' = s\<lparr>dfr_output := dfr_output s @ pathCmds E s upperZ zz (getRotatedComplexes E rot infillPath),
            oldLocation := Some (Vector3 (Re (last (getRotatedComplexes E rot infillPath)))
                                   (Im (last (getRotatedComplexes E rot infillPath))) upperZ)\<rparr>"
  using assms
  by (auto simp: addInfillPath_def pathCmds_def Let_def split: option.splits if_splits)

lemma addInfillPaths_effect:
  "addInfillPaths E upperZ zz paths s = Inr s' \<Longrightarrow>
     \<exists>cmds. s' = s\<lparr>dfr_output := dfr_output s @ cmds,
                  oldLocation := positionAfter (oldLocation s) upperZ cmds\<rparr> \<and>
            list_all isMovementCmd cmds \<and> (paths = [] \<longrightarrow> cmds = []) \<and>
            (paths \<noteq> [] \<longrightarrow> (\<exists>rot. rotation s = Some rot \<and>
               lastThread cmds = Some (getRotatedComplexes E rot (last paths))))"
proof (induction paths arbitrary: s)
  case Nil
  then show ?case by (intro exI [of _ "[]"]) simp
next
  case (Cons infillPath rest)
  from Cons.prems obtain s4 where
    one: "addInfillPath E upperZ zz infillPath s = Inr s4" and
    step: "addInfillPaths E upperZ zz rest s4 = Inr s'"
    by (auto split: sum.splits)
  from addInfillPath_effect [OF one] obtain rot where rot: "rotation s = Some rot" and
    s4: "s4 = s\<lparr>dfr_output := dfr_output s @ pathCmds E s upperZ zz (getRotatedComplexes E rot infillPath),
            oldLocation := Some (Vector3 (Re (last (getRotatedComplexes E rot infillPath)))
                                   (Im (last (getRotatedComplexes E rot infillPath))) upperZ)\<rparr>"
    by blast
  let ?c = "pathCmds E s upperZ zz (getRotatedComplexes E rot infillPath)"
  have pos4: "oldLocation s4 = positionAfter (oldLocation s) upperZ ?c"
    by (subst s4) (simp add: positionAfter_def pathCmds_lastThread)
  have rot4: "rotation s4 = Some rot" by (subst s4) (simp add: rot)
  have out4: "dfr_output s4 = dfr_output s @ ?c" by (subst s4) simp
  from Cons.IH [OF step] obtain cmds where
    cmds: "s' = s4\<lparr>dfr_output := dfr_output s4 @ cmds,
                    oldLocation := positionAfter (oldLocation s4) upperZ cmds\<rparr>"
    "list_all isMovementCmd cmds" "rest = [] \<longrightarrow> cmds = []"
    "rest \<noteq> [] \<longrightarrow> (\<exists>rot. rotation s4 = Some rot \<and>
               lastThread cmds = Some (getRotatedComplexes E rot (last rest)))"
    by blast
  have "s' = s\<lparr>dfr_output := dfr_output s @ (?c @ cmds),
                oldLocation := positionAfter (oldLocation s) upperZ (?c @ cmds)\<rparr>"
    by (subst cmds(1), simp only: pos4 out4 positionAfter_append, subst s4) simp
  moreover have "list_all isMovementCmd (?c @ cmds)"
    using cmds(2) by (simp add: pathCmds_movement)
  moreover have "\<exists>rot. rotation s = Some rot \<and>
               lastThread (?c @ cmds) = Some (getRotatedComplexes E rot (last (infillPath # rest)))"
    using cmds(3,4) rot rot4
    by (cases "rest = []") (auto simp: lastThread_append pathCmds_lastThread)
  ultimately show ?case by blast
qed

lemma addSkinnedInfillBoundary_effect:
  assumes "addSkinnedInfillBoundary E s addrs offsetY upperZ zz = Inr s'"
  shows "\<exists>cmds. s' = s\<lparr>dfr_output := dfr_output s @ cmds,
                  oldLocation := positionAfter (oldLocation s) upperZ cmds\<rparr> \<and>
            list_all isMovementCmd cmds"
  using assms addInfillPaths_effect
  by (fastforce simp: addSkinnedInfillBoundary_def split: option.splits sum.splits)

lemma infillDivisions_effect:
  "infillDivisions E addrs offsetY bottomZ thickness vs s = Inr s' \<Longrightarrow> oldLocation s = Some loc \<Longrightarrow>
     \<exists>cmds. s' = s\<lparr>dfr_output := dfr_output s @ cmds,
                  oldLocation := positionAfter (Some loc) (vec_z loc) cmds\<rparr> \<and>
            list_all isMovementCmd cmds"
proof (induction vs arbitrary: s loc)
  case Nil
  then show ?case by (intro exI [of _ "[]"]) simp
next
  case (Cons i rest)
  from Cons.prems obtain s1 where
    one: "addSkinnedInfillBoundary E s addrs (if even i then offsetY else 0) (vec_z loc)
            (divisionZ s bottomZ thickness i) = Inr s1" and
    step: "infillDivisions E addrs offsetY bottomZ thickness rest s1 = Inr s'"
    by (auto split: sum.splits)
  from addSkinnedInfillBoundary_effect [OF one] Cons.prems(2) obtain c where
    s1: "s1 = s\<lparr>dfr_output := dfr_output s @ c,
                 oldLocation := positionAfter (Some loc) (vec_z loc) c\<rparr>" and
    c: "list_all isMovementCmd c"
    by auto
  from positionAfter_z [of "Some loc" loc "vec_z loc" c] obtain loc1 where
    loc1: "positionAfter (Some loc) (vec_z loc) c = Some loc1" "vec_z loc1 = vec_z loc"
    by auto
  have old1: "oldLocation s1 = Some loc1" by (subst s1) (simp add: loc1)
  have out1: "dfr_output s1 = dfr_output s @ c" by (subst s1) simp
  from Cons.IH [OF step old1] obtain cmds where
    cmds: "s' = s1\<lparr>dfr_output := dfr_output s1 @ cmds,
                   oldLocation := positionAfter (Some loc1) (vec_z loc1) cmds\<rparr>"
    "list_all isMovementCmd cmds"
    by blast
  have "positionAfter (Some loc1) (vec_z loc1) cmds = positionAfter (Some loc) (vec_z loc) (c @ cmds)"
    using loc1 positionAfter_append [of "Some loc" "vec_z loc" c cmds] by simp
  then have "s' = s\<lparr>dfr_output := dfr_output s @ (c @ cmds),
                oldLocation := positionAfter (Some loc) (vec_z loc) (c @ cmds)\<rparr>"
    by (subst cmds(1), simp only: out1, subst s1) simp
  moreover have "list_all isMovementCmd (c @ cmds)" using c cmds(2) by simp
  ultimately show ?case by blast
qed

lemma addSkinnedInfill_effect:
  assumes "addSkinnedInfill E s = Inr s'" and "infillBoundaries s = Some addrs"
  shows "\<exists>flow loc cmds. oldFlowRate s = Some flow \<and> oldLocation s = Some loc \<and>
     s' = s\<lparr>dfr_output := dfr_output s
               @ [flowRateLine E (flow / verticalDivisionsFloat s / horizontalInfillDivisionsFloat s)]
               @ cmds @ [flowRateLine E flow],
            oldLocation := positionAfter (Some loc) (vec_z loc) cmds,
            infillBoundaries := None\<rparr> \<and>
     list_all isMovementCmd cmds"
proof -
  from assms obtain loc thickness siw flow s2 flow2 where
    loc: "oldLocation s = Some loc" and flow: "oldFlowRate s = Some flow" and
    divs: "infillDivisions E addrs (0.5 * siw)
             (vec_z loc + thickness / verticalDivisionsFloat s - thickness) thickness
             [0 ..< nat (verticalDivisions s)]
             (addFlowRateLine E
                (flow / verticalDivisionsFloat s / horizontalInfillDivisionsFloat s) s) = Inr s2" and
    flow2: "oldFlowRate s2 = Some flow2" and
    s': "s' = (addFlowRateLine E flow2 s2)\<lparr>infillBoundaries := None\<rparr>"
    by (auto simp: addSkinnedInfill_def Let_def split: option.splits if_splits sum.splits)
  let ?s1 = "addFlowRateLine E
                (flow / verticalDivisionsFloat s / horizontalInfillDivisionsFloat s) s"
  have loc1: "oldLocation ?s1 = Some loc" by (simp add: addFlowRateLine_def loc)
  from infillDivisions_effect [OF divs loc1] obtain cmds where
    s2: "s2 = ?s1\<lparr>dfr_output := dfr_output ?s1 @ cmds,
                  oldLocation := positionAfter (Some loc) (vec_z loc) cmds\<rparr>" and
    cmds: "list_all isMovementCmd cmds"
    by blast
  have "oldFlowRate s2 = Some flow" by (subst s2) (simp add: addFlowRateLine_def flow)
  with flow2 have f2: "flow2 = flow" by simp
  have "s' = s\<lparr>dfr_output := dfr_output s
               @ [flowRateLine E (flow / verticalDivisionsFloat s / horizontalInfillDivisionsFloat s)]
               @ cmds @ [flowRateLine E flow],
            oldLocation := positionAfter (Some loc) (vec_z loc) cmds,
            infillBoundaries := None\<rparr>"
    by (subst s', subst s2) (simp add: addFlowRateLine_def f2)
  with loc flow cmds show ?thesis by blast
qed


lemma addSkinnedPerimeter_bracket:
  assumes "addSkinnedPerimeter E s = Inr s'" and "perimeter s = Some perim"
  shows "\<exists>flow scaled cmds. oldFlowRate s = Some flow \<and>
     s' = s\<lparr>dfr_output := dfr_output s @ [flowRateLine E scaled] @ cmds @ [flowRateLine E flow],
            perimeter := None\<rparr> \<and>
     list_all isMovementCmd cmds \<and>
     (scaled = flow / verticalDivisionsFloat s / horizontalPerimeterDivisionsFloat s \<or>
      scaled = flow / verticalDivisionsFloat s)"
proof -
  from assms obtain flow ps bottomZ thickness where flow: "oldFlowRate s = Some flow" and
    s': "s' = emitSkinnedPerimeter E s perim ps bottomZ thickness flow"
    unfolding addSkinnedPerimeter_def Let_def
    by (auto split: option.splits if_splits sum.splits)
  show ?thesis
  proof (cases "getIsMinimumSides ps 3")
    case True
    let ?cmds = "concat (map (\<lambda>i. map (\<lambda>p. AddGcodeFromFeedRateThreadZ (feedRateMinute s) p
                           (travelFeedRateMinute s) (divisionZ s bottomZ thickness i)) ps)
                         [0 ..< nat (verticalDivisions s)])"
    have "list_all isMovementCmd ?cmds" by (simp add: list_all_iff)
    moreover have "s' = s\<lparr>dfr_output := dfr_output s @
          [flowRateLine E (flow / verticalDivisionsFloat s / horizontalPerimeterDivisionsFloat s)]
          @ ?cmds @ [flowRateLine E flow], perimeter := None\<rparr>"
      using True by (simp add: s' emitSkinnedPerimeter_eq)
    ultimately show ?thesis using flow by blast
  next
    case False
    let ?cmds = "map (\<lambda>i. AddGcodeFromFeedRateThreadZ (feedRateMinute s) perim
                           (travelFeedRateMinute s) (divisionZ s bottomZ thickness i))
                   [0 ..< nat (verticalDivisions s)]"
    have "list_all isMovementCmd ?cmds" by (simp add: list_all_iff)
    moreover have "s' = s\<lparr>dfr_output := dfr_output s @
          [flowRateLine E (flow / verticalDivisionsFloat s)]
          @ ?cmds @ [flowRateLine E flow], perimeter := None\<rparr>"
      using False by (simp add: s' emitSkinnedPerimeter_eq)
    ultimately show ?thesis using flow by blast
  qed
qed

lemma flow_rate_bracket_lines:
  "(addSkinnedPerimeter E s = Inr s' \<and> perimeter s \<noteq> None \<longrightarrow>
      (\<exists>flow scaled cmds.
         oldFlowRate s = Some flow \<and>
         dfr_output s' = dfr_output s @ [flowRateLine E scaled] @ cmds @ [flowRateLine E flow] \<and>
         list_all isMovementCmd cmds \<and>
         (scaled = flow / verticalDivisionsFloat s / horizontalPerimeterDivisionsFloat s \<or>
          scaled = flow / verticalDivisionsFloat s) \<and>
         oldFlowRate s' = Some flow)) \<and>
   (addSkinnedInfill E s = Inr s' \<and> infillBoundaries s \<noteq> None \<longrightarrow>
      (\<exists>flow cmds.
         oldFlowRate s = Some flow \<and>
         dfr_output s' = dfr_output s
           @ [flowRateLine E (flow / verticalDivisionsFloat s / horizontalInfillDivisionsFloat s)]
           @ cmds @ [flowRateLine E flow] \<and>
         list_all isMovementCmd cmds \<and>
         oldFlowRate s' = Some flow))"
proof (intro conjI impI)
  assume a: "addSkinnedPerimeter E s = Inr s' \<and> perimeter s \<noteq> None"
  then obtain perim where "perimeter s = Some perim" by auto
  from addSkinnedPerimeter_bracket [OF conjunct1 [OF a] this]
  obtain flow scaled cmds where flow: "oldFlowRate s = Some flow" and
    s': "s' = s\<lparr>dfr_output := dfr_output s @ [flowRateLine E scaled] @ cmds @ [flowRateLine E flow],
            perimeter := None\<rparr>" and
    rest: "list_all isMovementCmd cmds"
     "scaled = flow / verticalDivisionsFloat s / horizontalPerimeterDivisionsFloat s \<or>
      scaled = flow / verticalDivisionsFloat s"
    by blast
  have "dfr_output s' = dfr_output s @ [flowRateLine E scaled] @ cmds @ [flowRateLine E flow]"
    by (subst s') simp
  moreover have "oldFlowRate s' = Some flow" by (subst s') (simp add: flow)
  ultimately show "\<exists>flow scaled cmds.
         oldFlowRate s = Some flow \<and>
         dfr_output s' = dfr_output s @ [flowRateLine E scaled] @ cmds @ [flowRateLine E flow] \<and>
         list_all isMovementCmd cmds \<and>
         (scaled = flow / verticalDivisionsFloat s / horizontalPerimeterDivisionsFloat s \<or>
          scaled = flow / verticalDivisionsFloat s) \<and>
         oldFlowRate s' = Some flow"
    using flow rest by blast
next
  assume a: "addSkinnedInfill E s = Inr s' \<and> infillBoundaries s \<noteq> None"
  then obtain addrs where "infillBoundaries s = Some addrs" by auto
  from addSkinnedInfill_effect [OF conjunct1 [OF a] this]
  obtain flow loc cmds where flow: "oldFlowRate s = Some flow" and
    s': "s' = s\<lparr>dfr_output := dfr_output s
               @ [flowRateLine E (flow / verticalDivisionsFloat s / horizontalInfillDivisionsFloat s)]
               @ cmds @ [flowRateLine E flow],
            oldLocation := positionAfter (Some loc) (vec_z loc) cmds,
            infillBoundaries := None\<rparr>" and
    rest: "list_all isMovementCmd cmds"
    by blast
  have "dfr_output s' = dfr_output s
           @ [flowRateLine E (flow / verticalDivisionsFloat s / horizontalInfillDivisionsFloat s)]
           @ cmds @ [flowRateLine E flow]"
    by (subst s') simp
  moreover have "oldFlowRate s' = Some flow" by (subst s') (simp add: flow)
  ultimately show "\<exists>flow cmds.
         oldFlowRate s = Some flow \<and>
         dfr_output s' = dfr_output s
           @ [flowRateLine E (flow / verticalDivisionsFloat s / horizontalInfillDivisionsFloat s)]
           @ cmds @ [flowRateLine E flow] \<and>
         list_all isMovementCmd cmds \<and>
         oldFlowRate s' = Some flow"
    using flow rest by blast
qed

text \<open>
  Claim C4, as amended. Whenever a generator runs on a captured buffer and returns,
  what it appended to the output accumulated by the skein is the flow rate command
  \<^verbatim>\<open>M108 S\<close> with the scaled rate, then movement commands only, then the command
  \<^verbatim>\<open>M108 S\<close> with the flow rate that was tracked when the generator was called; and
  that tracked flow rate is unchanged afterwards. The scaled rate of a perimeter
  block is the tracked rate divided by the vertical count and, unless the fallback
  is taken, by the horizontal perimeter count; that of an infill block is the tracked
  rate divided by the vertical and the horizontal infill count. Nothing is stated of
  the text after the pass of \<^verbatim>\<open>gcodec.getGcodeWithoutDuplication\<close>.
\<close>

theorem flow_rate_bracketing:
  "(addSkinnedPerimeter E s = Inr s' \<and> perimeter s \<noteq> None \<longrightarrow>
      (\<exists>flow scaled cmds.
         oldFlowRate s = Some flow \<and>
         dfr_output s' = dfr_output s
           @ [AddLine (''M108 S'' @ getFourSignificantFigures E scaled)] @ cmds
           @ [AddLine (''M108 S'' @ getFourSignificantFigures E flow)] \<and>
         list_all isMovementCmd cmds \<and>
         (scaled = flow / verticalDivisionsFloat s / horizontalPerimeterDivisionsFloat s \<or>
          scaled = flow / verticalDivisionsFloat s) \<and>
         oldFlowRate s' = Some flow)) \<and>
   (addSkinnedInfill E s = Inr s' \<and> infillBoundaries s \<noteq> None \<longrightarrow>
      (\<exists>flow cmds.
         oldFlowRate s = Some flow \<and>
         dfr_output s' = dfr_output s
           @ [AddLine (''M108 S'' @ getFourSignificantFigures E
                 (flow / verticalDivisionsFloat s / horizontalInfillDivisionsFloat s))]
           @ cmds @ [AddLine (''M108 S'' @ getFourSignificantFigures E flow)] \<and>
         list_all isMovementCmd cmds \<and>
         oldFlowRate s' = Some flow))"
  using flow_rate_bracket_lines [of E s s'] by (simp only: flowRateLine_def)

text \<open>
  Claim C10. A sub-pass of the infill generator that emits a thread leaves the tracked
  position at the last point of the last thread emitted, with the upper z it was
  given and not the z of the sub-pass. \<^verbatim>\<open>addSkinnedInfill\<close> passes the z of the tracked
  position as upper z, so after the whole block the tracked position is the end of
  the last emitted thread at the z the position had before the block (the layer top),
  and its z is unchanged in any case: the later sub-passes and the next perimeter
  compute with the original layer top.
\<close>

theorem infill_position_overwritten:
  "(addSkinnedInfillBoundary E s addrs offsetY upperZ zz = Inr s' \<longrightarrow>
      (\<exists>cmds. dfr_output s' = dfr_output s @ cmds \<and>
         (\<forall>r. lastThread cmds = Some r \<longrightarrow>
              oldLocation s' = Some (Vector3 (Re (last r)) (Im (last r)) upperZ)) \<and>
         (lastThread cmds = None \<longrightarrow> oldLocation s' = oldLocation s))) \<and>
   (addSkinnedInfill E s = Inr s' \<and> infillBoundaries s \<noteq> None \<longrightarrow>
      (\<exists>loc scaled flow cmds.
         oldLocation s = Some loc \<and>
         dfr_output s' = dfr_output s @ [flowRateLine E scaled] @ cmds @ [flowRateLine E flow] \<and>
         (\<forall>r. lastThread cmds = Some r \<longrightarrow>
              oldLocation s' = Some (Vector3 (Re (last r)) (Im (last r)) (vec_z loc))) \<and>
         (lastThread cmds = None \<longrightarrow> oldLocation s' = Some loc) \<and>
         map_option vec_z (oldLocation s') = Some (vec_z loc)))"
proof (intro conjI impI)
  assume a: "addSkinnedInfillBoundary E s addrs offsetY upperZ zz = Inr s'"
  from addSkinnedInfillBoundary_effect [OF a] obtain cmds where
    s': "s' = s\<lparr>dfr_output := dfr_output s @ cmds,
                  oldLocation := positionAfter (oldLocation s) upperZ cmds\<rparr>"
    by blast
  have "dfr_output s' = dfr_output s @ cmds" by (subst s') simp
  moreover have "oldLocation s' = positionAfter (oldLocation s) upperZ cmds" by (subst s') simp
  ultimately show "\<exists>cmds. dfr_output s' = dfr_output s @ cmds \<and>
         (\<forall>r. lastThread cmds = Some r \<longrightarrow>
              oldLocation s' = Some (Vector3 (Re (last r)) (Im (last r)) upperZ)) \<and>
         (lastThread cmds = None \<longrightarrow> oldLocation s' = oldLocation s)"
    by (auto simp: positionAfter_def)
next
  assume a: "addSkinnedInfill E s = Inr s' \<and> infillBoundaries s \<noteq> None"
  then obtain addrs where "infillBoundaries s = Some addrs" by auto
  from addSkinnedInfill_effect [OF conjunct1 [OF a] this]
  obtain flow loc cmds where loc: "oldLocation s = Some loc" and
    s': "s' = s\<lparr>dfr_output := dfr_output s
               @ [flowRateLine E (flow / verticalDivisionsFloat s / horizontalInfillDivisionsFloat s)]
               @ cmds @ [flowRateLine E flow],
            oldLocation := positionAfter (Some loc) (vec_z loc) cmds,
            infillBoundaries := None\<rparr>"
    by blast
  have out: "dfr_output s' = dfr_output s
           @ [flowRateLine E (flow / verticalDivisionsFloat s / horizontalInfillDivisionsFloat s)]
           @ cmds @ [flowRateLine E flow]"
    by (subst s') simp
  have pos: "oldLocation s' = positionAfter (Some loc) (vec_z loc) cmds" by (subst s') simp
  have "(\<forall>r. lastThread cmds = Some r \<longrightarrow>
              oldLocation s' = Some (Vector3 (Re (last r)) (Im (last r)) (vec_z loc))) \<and>
         (lastThread cmds = None \<longrightarrow> oldLocation s' = Some loc) \<and>
         map_option vec_z (oldLocation s') = Some (vec_z loc)"
    by (auto simp: pos positionAfter_def split: option.splits)
  with loc out show "\<exists>loc scaled flow cmds.
         oldLocation s = Some loc \<and>
         dfr_output s' = dfr_output s @ [flowRateLine E scaled] @ cmds @ [flowRateLine E flow] \<and>
         (\<forall>r. lastThread cmds = Some r \<longrightarrow>
              oldLocation s' = Some (Vector3 (Re (last r)) (Im (last r)) (vec_z loc))) \<and>
         (lastThread cmds = None \<longrightarrow> oldLocation s' = Some loc) \<and>
         map_option vec_z (oldLocation s') = Some (vec_z loc)"
    by (intro exI [of _ loc]
          exI [of _ "flow / verticalDivisionsFloat s / horizontalInfillDivisionsFloat s"]
          exI [of _ flow] exI [of _ cmds]) simp
qed


lemma exampleInfill_run:
  "addSkinnedInfill exampleExternals exampleInfillSkein =
     Inr (exampleInfillSkein\<lparr>
       dfr_output := [AddLine ''M108 S1''] @ exampleInfillCmds @ [AddLine ''M108 S2''],
       oldLocation := Some (Vector3 1 0 2), infillBoundaries := None\<rparr>)"
  by (simp add: addSkinnedInfill_def exampleInfillSkein_def exampleInfillCmds_def
      skein_defs example_defs Let_def
      numeral_2_eq_2 addSkinnedInfillBoundary_def rotatedLoopsOf_def infillPathsOf_def
      addInfillPath_def addFlowRateLine_def flowRateLine_def divisionZ_def)

lemma examplePerimeter_run:
  "addSkinnedPerimeter exampleExternals (exampleSkein\<lparr>perimeter := Some [0, 1]\<rparr>) =
     Inr (exampleSkein\<lparr>dfr_output :=
            [AddLine ''M108 S1'',
             AddGcodeFromFeedRateThreadZ 959 [0, 1] 957 (3 / 2),
             AddGcodeFromFeedRateThreadZ 959 [0, 1] 957 2,
             AddLine ''M108 S2''],
          perimeter := None\<rparr>)"
  by (simp add: addSkinnedPerimeter_def emitSkinnedPerimeter_def
      getClippedSimplifiedLoopPathByLoop_def Let_def
      skein_defs example_defs numeral_2_eq_2 addFlowRateLine_def flowRateLine_def
      addPerimeterLoops_def addPerimeterLoop_def divisionZ_def)

theorem flow_rate_bracketing_witness:
  "(\<exists>s' scaled cmds.
      addSkinnedPerimeter exampleExternals (exampleSkein\<lparr>perimeter := Some [0, 1]\<rparr>) = Inr s' \<and>
      dfr_output s' = [AddLine (''M108 S'' @ getFourSignificantFigures exampleExternals scaled)]
                        @ cmds @ [AddLine ''M108 S2''] \<and>
      list_all isMovementCmd cmds \<and> oldFlowRate s' = Some 2) \<and>
   (\<exists>s' cmds.
      addSkinnedInfill exampleExternals exampleInfillSkein = Inr s' \<and>
      dfr_output s' = [AddLine ''M108 S1''] @ cmds @ [AddLine ''M108 S2''] \<and>
      list_all isMovementCmd cmds \<and> oldFlowRate s' = Some 2)"
proof -
  let ?p = "exampleSkein\<lparr>perimeter := Some [0, 1]\<rparr>"
  have pflow: "oldFlowRate ?p = Some 2" and iflow: "oldFlowRate exampleInfillSkein = Some 2"
    and pout: "dfr_output ?p = []" and iout: "dfr_output exampleInfillSkein = []"
    and iv: "verticalDivisionsFloat exampleInfillSkein = 2"
            "horizontalInfillDivisionsFloat exampleInfillSkein = 1"
    by (simp_all add: exampleInfillSkein_def skein_defs example_defs)
  have two: "getFourSignificantFigures exampleExternals 2 = ''2''"
    and one: "getFourSignificantFigures exampleExternals (2 / 2 / 1) = ''1''"
    by (simp_all add: example_defs)
  have p1: "perimeter ?p \<noteq> None" by simp
  have i1: "infillBoundaries exampleInfillSkein \<noteq> None" by (simp add: exampleInfillSkein_def)
  from examplePerimeter_run obtain sp where
    runp: "addSkinnedPerimeter exampleExternals ?p = Inr sp" by blast
  from exampleInfill_run obtain si where
    runi: "addSkinnedInfill exampleExternals exampleInfillSkein = Inr si" by blast
  from conjunct1 [OF flow_rate_bracketing [of exampleExternals ?p sp]] runp p1
  obtain flow scaled cmds where
    "oldFlowRate ?p = Some flow"
    "dfr_output sp = dfr_output ?p
       @ [AddLine (''M108 S'' @ getFourSignificantFigures exampleExternals scaled)] @ cmds
       @ [AddLine (''M108 S'' @ getFourSignificantFigures exampleExternals flow)]"
    "list_all isMovementCmd cmds" "oldFlowRate sp = Some flow"
    by blast
  with pflow pout runp two have perimeterBlock:
    "\<exists>s' scaled cmds.
      addSkinnedPerimeter exampleExternals ?p = Inr s' \<and>
      dfr_output s' = [AddLine (''M108 S'' @ getFourSignificantFigures exampleExternals scaled)]
                        @ cmds @ [AddLine ''M108 S2''] \<and>
      list_all isMovementCmd cmds \<and> oldFlowRate s' = Some 2"
    by auto
  from conjunct2 [OF flow_rate_bracketing [of exampleExternals exampleInfillSkein si]] runi i1
  obtain flow cmds where
    "oldFlowRate exampleInfillSkein = Some flow"
    "dfr_output si = dfr_output exampleInfillSkein
       @ [AddLine (''M108 S'' @ getFourSignificantFigures exampleExternals
            (flow / verticalDivisionsFloat exampleInfillSkein
               / horizontalInfillDivisionsFloat exampleInfillSkein))] @ cmds
       @ [AddLine (''M108 S'' @ getFourSignificantFigures exampleExternals flow)]"
    "list_all isMovementCmd cmds" "oldFlowRate si = Some flow"
    by blast
  with iflow iout iv runi two one have infillBlock:
    "\<exists>s' cmds.
      addSkinnedInfill exampleExternals exampleInfillSkein = Inr s' \<and>
      dfr_output s' = [AddLine ''M108 S1''] @ cmds @ [AddLine ''M108 S2''] \<and>
      list_all isMovementCmd cmds \<and> oldFlowRate s' = Some 2"
    by auto
  from perimeterBlock infillBlock show ?thesis by blast
qed

theorem infill_position_overwritten_witness:
  "\<exists>s' scaled flow cmds.
     addSkinnedInfill exampleExternals exampleInfillSkein = Inr s' \<and>
     dfr_output s' = [flowRateLine exampleExternals scaled] @ cmds
                       @ [flowRateLine exampleExternals flow] \<and>
     lastThread cmds = Some [Complex 0 0, Complex 1 0] \<and>
     oldLocation exampleInfillSkein = Some (Vector3 0 0 2) \<and>
     oldLocation s' = Some (Vector3 1 0 2)"
proof -
  have iloc: "oldLocation exampleInfillSkein = Some (Vector3 0 0 2)"
    and iout: "dfr_output exampleInfillSkein = []"
    by (simp_all add: exampleInfillSkein_def skein_defs example_defs)
  have i1: "infillBoundaries exampleInfillSkein \<noteq> None" by (simp add: exampleInfillSkein_def)
  let ?si = "exampleInfillSkein\<lparr>
       dfr_output := [AddLine ''M108 S1''] @ exampleInfillCmds @ [AddLine ''M108 S2''],
       oldLocation := Some (Vector3 1 0 2), infillBoundaries := None\<rparr>"
  note runi = exampleInfill_run
  from conjunct2 [OF infill_position_overwritten
                       [of exampleExternals exampleInfillSkein _ _ _ _ ?si]] runi i1
  obtain loc scaled flow cmds where
    loc: "oldLocation exampleInfillSkein = Some loc" and
    out: "dfr_output ?si = dfr_output exampleInfillSkein @ [flowRateLine exampleExternals scaled]
            @ cmds @ [flowRateLine exampleExternals flow]" and
    pos: "\<forall>r. lastThread cmds = Some r \<longrightarrow>
              oldLocation ?si = Some (Vector3 (Re (last r)) (Im (last r)) (vec_z loc))"
    by blast
  from out iout have "cmds = exampleInfillCmds"
    by (simp add: exampleInfillCmds_def)
  then have last: "lastThread cmds = Some [Complex 0 0, Complex 1 0]"
    by (simp add: exampleInfillCmds_def)
  with pos have "oldLocation ?si = Some (Vector3 1 0 (vec_z loc))" by simp
  with loc iloc have "oldLocation ?si = Some (Vector3 1 0 2)" by simp
  with runi out iout last iloc show ?thesis
    by (intro exI [of _ ?si] exI [of _ scaled] exI [of _ flow] exI [of _ cmds]) simp
qed


subsection \<open>Parameter parsing\<close>

lemma parseInitializationFrom_marker:
  assumes "isEndOfInitialization E line"
  shows "parseInitializationFrom E i (line # rest) s =
     Inr (s\<lparr>lineIndex := i,
            distanceFeedRate := parseSplitLine E (distanceFeedRate s)
               ''(</extruderInitialization>)'' (getSplitLineBeforeBracketSemicolon E line),
            dfr_output := dfr_output s @ [AddTagBracketedProcedure ''skin'']\<rparr>)"
  using assms by (simp add: isEndOfInitialization_def Let_def)

lemma parseInitializationFrom_other:
  assumes "parseInitializationFrom E i (line # rest) s = Inr s'"
    and "\<not> isEndOfInitialization E line"
  shows "\<exists>s1. parseInitializationFrom E (Suc i) rest s1 = Inr s' \<and>
     dfr_output s1 = dfr_output s @ [AddLine line] \<and> lineIndex s1 = i \<and> lines s1 = lines s"
  using assms
  apply (simp add: isEndOfInitialization_def Let_def addLine_def split: if_splits sum.splits)
          apply (rule exI, rule conjI, assumption, simp)+
  done


lemma parseInitializationFrom_scan:
  "parseInitializationFrom E i ls s = Inr s' \<Longrightarrow>
     dfr_output s' =
       dfr_output s @ map AddLine (takeWhile (\<lambda>l. \<not> isEndOfInitialization E l) ls)
         @ (if \<exists>l \<in> set ls. isEndOfInitialization E l
            then [AddTagBracketedProcedure ''skin''] else []) \<and>
     lineIndex s' =
       (if \<exists>l \<in> set ls. isEndOfInitialization E l
        then i + length (takeWhile (\<lambda>l. \<not> isEndOfInitialization E l) ls)
        else if ls = [] then lineIndex s else i + length ls - 1) \<and>
     lines s' = lines s"
proof (induction ls arbitrary: i s)
  case Nil
  then show ?case by simp
next
  case (Cons line rest)
  show ?case
  proof (cases "isEndOfInitialization E line")
    case True
    from Cons.prems parseInitializationFrom_marker [OF True, of i rest s]
    have "s' = s\<lparr>lineIndex := i,
            distanceFeedRate := parseSplitLine E (distanceFeedRate s)
               ''(</extruderInitialization>)'' (getSplitLineBeforeBracketSemicolon E line),
            dfr_output := dfr_output s @ [AddTagBracketedProcedure ''skin'']\<rparr>"
      by simp
    then have "dfr_output s' = dfr_output s @ [AddTagBracketedProcedure ''skin'']"
      and "lineIndex s' = i" and "lines s' = lines s" by simp_all
    with True show ?thesis by simp
  next
    case False
    from parseInitializationFrom_other [OF Cons.prems False] obtain s1 where
      s1: "dfr_output s1 = dfr_output s @ [AddLine line]" "lineIndex s1 = i"
          "lines s1 = lines s" and
      step: "parseInitializationFrom E (Suc i) rest s1 = Inr s'"
      by blast
    from Cons.IH [OF step] s1 False show ?thesis
      by (cases "rest = []") auto
  qed
qed


subsection \<open>Steps of the body scan\<close>

lemma lineTag_SomeD:
  "lineTag E line = Some w \<Longrightarrow>
     \<not> length (getSplitLineBeforeBracketSemicolon E line) < 1 \<and>
     getSplitLineBeforeBracketSemicolon E line ! 0 = w"
  by (auto simp: lineTag_def split: list.splits)

lemma addSkinnedPerimeter_absent: "perimeter s = None \<Longrightarrow> addSkinnedPerimeter E s = Inr s"
  by (simp add: addSkinnedPerimeter_def)

lemma addSkinnedInfill_absent: "infillBoundaries s = None \<Longrightarrow> addSkinnedInfill E s = Inr s"
  by (simp add: addSkinnedInfill_def)

lemma parseLine_infill_start:
  "lineTag E line = Some ''(<infill>)'' \<Longrightarrow>
     parseLine E s line =
       Inr (addLine line
         (if layerIndex s \<ge> layersFromBottom s \<and> layerIndex s = layerIndexTop s
          then s\<lparr>infillBoundaries := Some []\<rparr> else s))"
  by (drule lineTag_SomeD) (simp add: parseLine_def Let_def)

lemma parseLine_infill_end_absent:
  "lineTag E line = Some ''(</infill>)'' \<Longrightarrow> infillBoundaries s = None \<Longrightarrow>
     parseLine E s line = Inr (addLine line s)"
  by (drule lineTag_SomeD) (simp add: parseLine_def Let_def addSkinnedInfill_absent)

lemma parseLine_perimeter_end_absent:
  "lineTag E line = Some ''(</perimeter>)'' \<Longrightarrow> perimeter s = None \<Longrightarrow>
     parseLine E s line = Inr (addLine line s)"
  by (drule lineTag_SomeD) (simp add: parseLine_def Let_def addSkinnedPerimeter_absent)

lemma parseLine_infill_loop_absent:
  "lineTag E line = Some ''(<infillBoundary>)'' \<or> lineTag E line = Some ''(<infillPoint>'' \<Longrightarrow>
     infillBoundaries s = None \<Longrightarrow> parseLine E s line = Inr (addLine line s)"
  by (erule disjE; drule lineTag_SomeD) (simp_all add: parseLine_def Let_def)

lemma addSkinnedPerimeter_frame:
  assumes "addSkinnedPerimeter E s = Inr s'"
  shows "infillBoundaries s' = infillBoundaries s \<and> layerIndex s' = layerIndex s \<and>
         layersFromBottom s' = layersFromBottom s \<and> layerIndexTop s' = layerIndexTop s \<and>
         perimeter s' = None"
proof (cases "perimeter s")
  case None
  with assms show ?thesis by (simp add: addSkinnedPerimeter_absent)
next
  case (Some perim)
  from addSkinnedPerimeter_bracket [OF assms Some] obtain flow scaled cmds where
    "s' = s\<lparr>dfr_output := dfr_output s @ [flowRateLine E scaled] @ cmds @ [flowRateLine E flow],
            perimeter := None\<rparr>" by blast
  then show ?thesis by simp
qed

lemma addSkinnedInfill_frame:
  assumes "addSkinnedInfill E s = Inr s'"
  shows "perimeter s' = perimeter s \<and> layerIndex s' = layerIndex s \<and>
         layersFromBottom s' = layersFromBottom s \<and> layerIndexTop s' = layerIndexTop s \<and>
         infillBoundaries s' = None"
proof (cases "infillBoundaries s")
  case None
  with assms show ?thesis by (simp add: addSkinnedInfill_absent)
next
  case (Some addrs)
  from addSkinnedInfill_effect [OF assms Some] obtain flow loc cmds where
    "s' = s\<lparr>dfr_output := dfr_output s
               @ [flowRateLine E (flow / verticalDivisionsFloat s / horizontalInfillDivisionsFloat s)]
               @ cmds @ [flowRateLine E flow],
            oldLocation := positionAfter (Some loc) (vec_z loc) cmds,
            infillBoundaries := None\<rparr>" by blast
  then show ?thesis by simp
qed

lemma parseLine_frame:
  assumes "parseLine E s line = Inr s'"
  shows "layersFromBottom s' = layersFromBottom s \<and> layerIndexTop s' = layerIndexTop s \<and>
         layerIndex s \<le> layerIndex s'"
  using assms
  by (auto simp: parseLine_def Let_def addLine_def split: if_splits sum.splits option.splits
      dest!: addSkinnedPerimeter_frame addSkinnedInfill_frame)

lemma parseLine_opens_infill:
  assumes "parseLine E s line = Inr s'" and "infillBoundaries s = None"
    and "infillBoundaries s' \<noteq> None"
  shows "lineTag E line = Some ''(<infill>)'' \<and> layerIndex s \<ge> layersFromBottom s \<and>
         layerIndex s = layerIndexTop s \<and> infillBoundaries s' = Some []"
  using assms
  by (auto simp: parseLine_def Let_def addLine_def lineTag_def
      split: if_splits sum.splits option.splits list.splits
      dest!: addSkinnedPerimeter_frame addSkinnedInfill_frame)

lemma parseLine_opens_perimeter:
  assumes "parseLine E s line = Inr s'" and "perimeter s = None"
    and "perimeter s' \<noteq> None"
  shows "lineTag E line = Some ''(<perimeter>'' \<and> layerIndex s \<ge> layersFromBottom s \<and>
         perimeter s' = Some []"
  using assms
  by (auto simp: parseLine_def Let_def addLine_def lineTag_def
      split: if_splits sum.splits option.splits list.splits
      dest!: addSkinnedPerimeter_frame addSkinnedInfill_frame)

subsection \<open>The boundary prescan and the starting layer\<close>

lemma firstLayerWithLoops_None:
  "firstLayerWithLoops ls i = None \<longleftrightarrow> (\<forall>l \<in> set ls. layer_loops l = [])"
  by (induction ls arbitrary: i) auto

lemma firstLayerWithLoops_Some:
  "firstLayerWithLoops ls i = Some k \<Longrightarrow>
     i \<le> k \<and> k - i < length ls \<and> layer_loops (ls ! (k - i)) \<noteq> [] \<and>
     (\<forall>j < k - i. layer_loops (ls ! j) = [])"
proof (induction ls arbitrary: i)
  case Nil
  then show ?case by simp
next
  case (Cons l ls)
  show ?case
  proof (cases "layer_loops l = []")
    case False
    with Cons.prems show ?thesis by simp
  next
    case True
    with Cons.prems have "firstLayerWithLoops ls (Suc i) = Some k" by simp
    from Cons.IH [OF this] have
      ik: "Suc i \<le> k" and len: "k - Suc i < length ls" and
      ne: "layer_loops (ls ! (k - Suc i)) \<noteq> []" and
      em: "\<forall>j < k - Suc i. layer_loops (ls ! j) = []" by auto
    from ik have ki: "k - i = Suc (k - Suc i)" by simp
    have "\<forall>j < k - i. layer_loops ((l # ls) ! j) = []"
    proof (intro allI impI)
      fix j assume "j < k - i"
      with ki em True show "layer_loops ((l # ls) ! j) = []"
        by (cases j) auto
    qed
    with ik len ne ki show ?thesis by simp
  qed
qed

lemma parseBoundaries_offset:
  assumes "parseBoundaries E s = Inr s'"
  shows "layersFromBottom s' =
     (case firstLayerWithLoops (boundaryLayers s') 0 of
        None \<Rightarrow> layersFromBottom s
      | Some k \<Rightarrow> layersFromBottom s + int k)"
  using assms
  by (auto simp: parseBoundaries_def split: sum.splits prod.splits option.splits)

lemma parseLinesFrom_frame:
  "parseLinesFrom E i ls s = Inr s' \<Longrightarrow>
     layersFromBottom s' = layersFromBottom s \<and> layerIndexTop s' = layerIndexTop s \<and>
     layerIndex s \<le> layerIndex s'"
proof (induction ls arbitrary: i s)
  case Nil
  then show ?case by simp
next
  case (Cons line rest)
  from Cons.prems obtain s1 where
    one: "parseLine E (s\<lparr>lineIndex := i\<rparr>) line = Inr s1" and
    step: "parseLinesFrom E (Suc i) rest s1 = Inr s'"
    by (auto split: sum.splits)
  from parseLine_frame [OF one] Cons.IH [OF step] show ?case by simp
qed

lemma parseLinesFrom_no_capture:
  "parseLinesFrom E i ls s = Inr s' \<Longrightarrow> perimeter s = None \<Longrightarrow> infillBoundaries s = None \<Longrightarrow>
     layerIndex s' < layersFromBottom s \<Longrightarrow>
     perimeter s' = None \<and> infillBoundaries s' = None"
proof (induction ls arbitrary: i s)
  case Nil
  then show ?case by simp
next
  case (Cons line rest)
  from Cons.prems(1) obtain s1 where
    one: "parseLine E (s\<lparr>lineIndex := i\<rparr>) line = Inr s1" and
    step: "parseLinesFrom E (Suc i) rest s1 = Inr s'"
    by (auto split: sum.splits)
  from parseLine_frame [OF one] have
    f1: "layersFromBottom s1 = layersFromBottom s" "layerIndex s \<le> layerIndex s1" by simp_all
  from parseLinesFrom_frame [OF step] have f2: "layerIndex s1 \<le> layerIndex s'" by simp
  from f1 f2 Cons.prems(4) have below: "layerIndex s < layersFromBottom s" by simp
  have p1: "perimeter s1 = None"
  proof (rule ccontr)
    assume "perimeter s1 \<noteq> None"
    from parseLine_opens_perimeter [OF one _ this] Cons.prems(2) below show False by simp
  qed
  have i1: "infillBoundaries s1 = None"
  proof (rule ccontr)
    assume "infillBoundaries s1 \<noteq> None"
    from parseLine_opens_infill [OF one _ this] Cons.prems(3) below show False by simp
  qed
  from Cons.prems(4) f1 have "layerIndex s' < layersFromBottom s1" by simp
  from Cons.IH [OF step p1 i1 this] show ?case .
qed

lemma parseBoundaryLines_top:
  "parseBoundaryLines E ls (layers, topIndex, boundaryLoop) = Inr (layers', topIndex', boundaryLoop') \<Longrightarrow>
     topIndex' - int (length layers') = topIndex - int (length layers)"
proof (induction ls arbitrary: layers topIndex boundaryLoop)
  case Nil
  then show ?case by simp
next
  case (Cons line rest)
  from Cons.prems show ?case
    by (auto simp: Let_def split: if_splits sum.splits option.splits prod.splits
        dest!: Cons.IH)
qed

lemma parseBoundaries_top:
  assumes "parseBoundaries E s = Inr s'"
  shows "layerIndexTop s' = int (length (boundaryLayers s')) - 1"
  using assms
  by (auto simp: parseBoundaries_def split: sum.splits prod.splits dest!: parseBoundaryLines_top)

lemmas body_defs = exampleBodySkein_def exampleLayers_def

subsection \<open>The claims on parsing\<close>

text \<open>
  Claim C7, as amended. When \<^verbatim>\<open>parseInitialization\<close> returns and the lines hold an
  end-of-initialization marker, every line before the first marker has been forwarded
  unchanged to the output, in order, followed by the tag of the skin procedure; the
  marker line itself has not been forwarded, and the scan position is the index of
  the marker line, not the index after it. Without a marker every line has been
  forwarded.
\<close>

theorem parseInitialization_scan:
  assumes "parseInitialization E s = Inr s'"
  shows "(\<forall>before marker after.
            lines s = before @ marker # after \<and>
            (\<forall>l \<in> set before. \<not> isEndOfInitialization E l) \<and>
            isEndOfInitialization E marker \<longrightarrow>
              dfr_output s' =
                dfr_output s @ map AddLine before @ [AddTagBracketedProcedure ''skin''] \<and>
              lineIndex s' = length before \<and> lines s' ! lineIndex s' = marker) \<and>
         ((\<forall>l \<in> set (lines s). \<not> isEndOfInitialization E l) \<longrightarrow>
              dfr_output s' = dfr_output s @ map AddLine (lines s))"
proof -
  from assms have run: "parseInitializationFrom E 0 (lines s) s = Inr s'"
    by (simp add: parseInitialization_def)
  note scan = parseInitializationFrom_scan [OF run]
  have "dfr_output s' =
          dfr_output s @ map AddLine before @ [AddTagBracketedProcedure ''skin''] \<and>
        lineIndex s' = length before \<and> lines s' ! lineIndex s' = marker"
    if l: "lines s = before @ marker # after"
      and b: "\<forall>l \<in> set before. \<not> isEndOfInitialization E l"
      and m: "isEndOfInitialization E marker"
    for before marker after
  proof -
    from b m have tw: "takeWhile (\<lambda>l. \<not> isEndOfInitialization E l) (before @ marker # after) = before"
      by simp
    from m have ex: "\<exists>l \<in> set (before @ marker # after). isEndOfInitialization E l" by auto
    from scan tw ex l show ?thesis by simp
  qed
  moreover have "dfr_output s' = dfr_output s @ map AddLine (lines s)"
    if "\<forall>l \<in> set (lines s). \<not> isEndOfInitialization E l"
  proof -
    from that have "takeWhile (\<lambda>l. \<not> isEndOfInitialization E l) (lines s) = lines s"
      by (simp add: takeWhile_eq_all_conv)
    with scan that show ?thesis by simp
  qed
  ultimately show ?thesis by blast
qed

lemma exampleInitialization_run:
  "parseInitialization exampleExternals (newSkinSkein exampleExternals exampleText exampleRepository)
     = Inr ((newSkinSkein exampleExternals exampleText exampleRepository)
         \<lparr>lineIndex := 5,
          dfr_output := map AddLine exampleHeader @ [AddTagBracketedProcedure ''skin''],
          layerThickness := Some 1, perimeterWidth := Some 1, halfPerimeterWidth := Some (1 / 2),
          infillWidth := Some 1, skinInfillWidth := Some 1, infillPerimeterOverlap := Some 0,
          oldFlowRate := Some 2\<rparr>)"
  by (simp add: run_defs example_defs)

text \<open>
  Claim C7 as stated has the scan position one line past the marker and every scanned
  line forwarded. On the example text the marker is line 5: the parser returns with
  the position 5, and the marker line is not in its output.
\<close>

theorem parseInitialization_position_counterexample:
  "\<exists>s'. parseInitialization exampleExternals
           (newSkinSkein exampleExternals exampleText exampleRepository) = Inr s' \<and>
        lines s' ! 5 = ''(</extruderInitialization>)'' \<and>
        lineIndex s' = 5 \<and> lineIndex s' \<noteq> 5 + 1 \<and>
        AddLine ''(</extruderInitialization>)'' \<notin> set (dfr_output s')"
  by (simp add: exampleInitialization_run) (simp add: run_defs example_defs)

theorem parseInitialization_scan_witness:
  "\<exists>s'. parseInitialization exampleExternals
           (newSkinSkein exampleExternals exampleText exampleRepository) = Inr s' \<and>
        dfr_output s' = map AddLine exampleHeader @ [AddTagBracketedProcedure ''skin''] \<and>
        lineIndex s' = 5 \<and> lines s' ! lineIndex s' = ''(</extruderInitialization>)''"
proof -
  let ?s = "newSkinSkein exampleExternals exampleText exampleRepository"
  from exampleInitialization_run obtain s' where
    run: "parseInitialization exampleExternals ?s = Inr s'" by blast
  have l: "lines ?s = exampleHeader @ ''(</extruderInitialization>)'' # [[]]"
    by (simp add: run_defs example_defs)
  have b: "\<forall>l \<in> set exampleHeader. \<not> isEndOfInitialization exampleExternals l"
    by (simp add: isEndOfInitialization_def example_defs)
  have m: "isEndOfInitialization exampleExternals ''(</extruderInitialization>)''"
    by (simp add: isEndOfInitialization_def example_defs)
  have out: "dfr_output ?s = []" by (simp add: newSkinSkein_def)
  have len: "length exampleHeader = 5" by (simp add: example_defs)
  from conjunct1 [OF parseInitialization_scan [OF run]] l b m
  have "dfr_output s' =
          dfr_output ?s @ map AddLine exampleHeader @ [AddTagBracketedProcedure ''skin''] \<and>
        lineIndex s' = length exampleHeader \<and>
        lines s' ! lineIndex s' = ''(</extruderInitialization>)''"
    by blast
  with run out len show ?thesis by auto
qed

text \<open>
  Claim C8, as amended. A generator called on an absent buffer returns the skein as
  it is. An end-of-perimeter marker when no perimeter is being captured, and an
  end-of-infill, infill-boundary or infill-point marker when no infill boundary set
  is open, raise nothing and change nothing: the line is forwarded to the output.
\<close>

theorem absent_buffer_no_op:
  "(perimeter s = None \<longrightarrow> addSkinnedPerimeter E s = Inr s) \<and>
   (infillBoundaries s = None \<longrightarrow> addSkinnedInfill E s = Inr s) \<and>
   (lineTag E line = Some ''(</perimeter>)'' \<and> perimeter s = None \<longrightarrow>
      parseLine E s line = Inr (addLine line s)) \<and>
   (lineTag E line = Some ''(</infill>)'' \<and> infillBoundaries s = None \<longrightarrow>
      parseLine E s line = Inr (addLine line s)) \<and>
   ((lineTag E line = Some ''(<infillBoundary>)'' \<or> lineTag E line = Some ''(<infillPoint>'') \<and>
    infillBoundaries s = None \<longrightarrow>
      parseLine E s line = Inr (addLine line s))"
  using addSkinnedPerimeter_absent [of s E] addSkinnedInfill_absent [of s E]
    parseLine_perimeter_end_absent [of E line s] parseLine_infill_end_absent [of E line s]
    parseLine_infill_loop_absent [of E line s]
  by blast

theorem absent_buffer_no_op_witness:
  "parseLine exampleExternals exampleSkein ''(</perimeter>)''
     = Inr (exampleSkein\<lparr>dfr_output := [AddLine ''(</perimeter>)'']\<rparr>) \<and>
   parseLine exampleExternals exampleSkein ''(</infill>)''
     = Inr (exampleSkein\<lparr>dfr_output := [AddLine ''(</infill>)'']\<rparr>) \<and>
   parseLine exampleExternals exampleSkein ''(<infillPoint> X1 Y1 Z0 )''
     = Inr (exampleSkein\<lparr>dfr_output := [AddLine ''(<infillPoint> X1 Y1 Z0 )'']\<rparr>)"
proof -
  have p: "perimeter exampleSkein = None" and i: "infillBoundaries exampleSkein = None"
    and out: "dfr_output exampleSkein = []"
    by (simp_all add: skein_defs)
  have t1: "lineTag exampleExternals ''(</perimeter>)'' = Some ''(</perimeter>)''"
    and t2: "lineTag exampleExternals ''(</infill>)'' = Some ''(</infill>)''"
    and t3: "lineTag exampleExternals ''(<infillPoint> X1 Y1 Z0 )'' = Some ''(<infillPoint>''"
    by (simp_all add: lineTag_def example_defs)
  note n = absent_buffer_no_op [where E = exampleExternals and s = exampleSkein]
  from n [of "''(</perimeter>)''"] t1 p
  have "parseLine exampleExternals exampleSkein ''(</perimeter>)''
          = Inr (addLine ''(</perimeter>)'' exampleSkein)" by blast
  moreover from n [of "''(</infill>)''"] t2 i
  have "parseLine exampleExternals exampleSkein ''(</infill>)''
          = Inr (addLine ''(</infill>)'' exampleSkein)" by blast
  moreover from n [of "''(<infillPoint> X1 Y1 Z0 )''"] t3 i
  have "parseLine exampleExternals exampleSkein ''(<infillPoint> X1 Y1 Z0 )''
          = Inr (addLine ''(<infillPoint> X1 Y1 Z0 )'' exampleSkein)" by blast
  ultimately show ?thesis by (simp add: addLine_def out)
qed

text \<open>
  Claim C8 as stated covers every marker of a capture region whose buffer is absent.
  An infill-point marker inside an open infill boundary set, with no infill-boundary
  marker before it, finds \<^verbatim>\<open>self.infillBoundary\<close> absent and raises.
\<close>

theorem infill_point_without_loop_counterexample:
  "infillBoundary (exampleSkein\<lparr>infillBoundaries := Some []\<rparr>) = None \<and>
   lineTag exampleExternals ''(<infillPoint> X1 Y1 Z0 )'' = Some ''(<infillPoint>'' \<and>
   parseLine exampleExternals (exampleSkein\<lparr>infillBoundaries := Some []\<rparr>)
     ''(<infillPoint> X1 Y1 Z0 )'' = Inl AttributeError"
  by (simp add: parseLine_def lineTag_def Let_def skein_defs example_defs)

text \<open>
  Claim C6. At a start-of-infill marker the infill boundary set is opened (empty)
  exactly when the layer index is at least the start offset and equals
  \<^verbatim>\<open>layerIndexTop\<close>; otherwise the set is left as it was. No line of any other kind,
  and no start-of-infill marker under another condition, turns an absent set into an
  open one. While the set is absent an end-of-infill marker generates nothing.
  \<^verbatim>\<open>layerIndexTop\<close> is the index of the last layer the prescan recorded.
\<close>

theorem infill_capture_gate:
  "(lineTag E line = Some ''(<infill>)'' \<longrightarrow>
      parseLine E s line =
        Inr (addLine line
          (if layerIndex s \<ge> layersFromBottom s \<and> layerIndex s = layerIndexTop s
           then s\<lparr>infillBoundaries := Some []\<rparr> else s))) \<and>
   (parseLine E s line = Inr s' \<and> infillBoundaries s = None \<and> infillBoundaries s' \<noteq> None \<longrightarrow>
      lineTag E line = Some ''(<infill>)'' \<and> layerIndex s \<ge> layersFromBottom s \<and>
      layerIndex s = layerIndexTop s \<and> infillBoundaries s' = Some []) \<and>
   (lineTag E line = Some ''(</infill>)'' \<and> infillBoundaries s = None \<longrightarrow>
      parseLine E s line = Inr (addLine line s)) \<and>
   (parseBoundaries E s = Inr s'' \<longrightarrow>
      layerIndexTop s'' = int (length (boundaryLayers s'')) - 1)"
  using parseLine_infill_start [of E line s] parseLine_opens_infill [of E s line s']
    parseLine_infill_end_absent [of E line s] parseBoundaries_top [of E s s'']
  by blast

text \<open>
  Claim C5. After \<^verbatim>\<open>parseBoundaries\<close> the start offset is the configured one plus the
  index of the first recorded layer with a loop, and the configured one when no
  layer has a loop. In a body scan that starts with no capture open, a skein whose
  layer index is still below the start offset has no perimeter and no infill capture
  open; with layers 0 and 1 empty, layer 2 the first with loops and a configured
  start of 1, that is every skein before layer index 3.
\<close>

theorem starting_layer_offset:
  "(parseBoundaries E s = Inr s' \<longrightarrow>
      (case firstLayerWithLoops (boundaryLayers s') 0 of
         None \<Rightarrow> (\<forall>l \<in> set (boundaryLayers s'). layer_loops l = []) \<and>
                 layersFromBottom s' = layersFromBottom s
       | Some k \<Rightarrow> k < length (boundaryLayers s') \<and>
                   layer_loops (boundaryLayers s' ! k) \<noteq> [] \<and>
                   (\<forall>j < k. layer_loops (boundaryLayers s' ! j) = []) \<and>
                   layersFromBottom s' = layersFromBottom s + int k)) \<and>
   (parseLinesFrom E i ls s' = Inr s'' \<and> perimeter s' = None \<and> infillBoundaries s' = None \<and>
    layerIndex s'' < layersFromBottom s' \<longrightarrow>
      perimeter s'' = None \<and> infillBoundaries s'' = None)"
proof (intro conjI impI)
  assume pb: "parseBoundaries E s = Inr s'"
  show "case firstLayerWithLoops (boundaryLayers s') 0 of
         None \<Rightarrow> (\<forall>l \<in> set (boundaryLayers s'). layer_loops l = []) \<and>
                 layersFromBottom s' = layersFromBottom s
       | Some k \<Rightarrow> k < length (boundaryLayers s') \<and>
                   layer_loops (boundaryLayers s' ! k) \<noteq> [] \<and>
                   (\<forall>j < k. layer_loops (boundaryLayers s' ! j) = []) \<and>
                   layersFromBottom s' = layersFromBottom s + int k"
  proof (cases "firstLayerWithLoops (boundaryLayers s') 0")
    case None
    with parseBoundaries_offset [OF pb] firstLayerWithLoops_None [of "boundaryLayers s'" 0]
    show ?thesis by simp
  next
    case (Some k)
    with parseBoundaries_offset [OF pb] firstLayerWithLoops_Some [OF Some]
    show ?thesis by simp
  qed
next
  assume "parseLinesFrom E i ls s' = Inr s'' \<and> perimeter s' = None \<and>
    infillBoundaries s' = None \<and> layerIndex s'' < layersFromBottom s'"
  then show "perimeter s'' = None" "infillBoundaries s'' = None"
    using parseLinesFrom_no_capture [of E i ls s' s''] by blast+
qed


lemma exampleBoundaries_run:
  "parseBoundaries exampleExternals exampleBodySkein =
     Inr (exampleBodySkein\<lparr>
       boundaryLayers :=
         [\<lparr>layer_z = 0, layer_loops = []\<rparr>, \<lparr>layer_z = 1, layer_loops = []\<rparr>,
          \<lparr>layer_z = 2, layer_loops = [[Complex 0 0]]\<rparr>, \<lparr>layer_z = 3, layer_loops = []\<rparr>],
       layerIndexTop := 3, layersFromBottom := 3\<rparr>)"
  by (simp add: parseBoundaries_def body_defs skein_defs example_defs floatArg_def Let_def
      dropAxis_def)

theorem starting_layer_offset_witness:
  "\<exists>s' s''.
     parseBoundaries exampleExternals exampleBodySkein = Inr s' \<and>
     layersFromBottom exampleBodySkein = 1 \<and>
     firstLayerWithLoops (boundaryLayers s') 0 = Some 2 \<and>
     layersFromBottom s' = 3 \<and>
     parseLinesFrom exampleExternals 0 (take 7 exampleLayers) s' = Inr s'' \<and>
     layerIndex s'' = 2 \<and> perimeter s'' = None \<and> infillBoundaries s'' = None"
proof -
  let ?s' = "exampleBodySkein\<lparr>
       boundaryLayers :=
         [\<lparr>layer_z = 0, layer_loops = []\<rparr>, \<lparr>layer_z = 1, layer_loops = []\<rparr>,
          \<lparr>layer_z = 2, layer_loops = [[Complex 0 0]]\<rparr>, \<lparr>layer_z = 3, layer_loops = []\<rparr>],
       layerIndexTop := 3, layersFromBottom := 3\<rparr>"
  let ?s'' = "?s'\<lparr>lineIndex := 6, layerIndex := 2,
       dfr_output := map AddLine (take 7 exampleLayers)\<rparr>"
  note pb = exampleBoundaries_run
  have first: "firstLayerWithLoops (boundaryLayers ?s') 0 = Some 2"
    by (simp add: numeral_2_eq_2)
  have lfb: "layersFromBottom exampleBodySkein = 1" by (simp add: body_defs)
  have body: "parseLinesFrom exampleExternals 0 (take 7 exampleLayers) ?s' = Inr ?s''"
    by (simp add: parseLine_def body_defs skein_defs example_defs Let_def addLine_def)
  have start: "perimeter ?s' = None" "infillBoundaries ?s' = None"
    by (simp_all add: body_defs skein_defs)
  have below: "layerIndex ?s'' < layersFromBottom ?s'" by simp
  from conjunct1 [OF starting_layer_offset [of exampleExternals exampleBodySkein ?s']] pb first lfb
  have offset: "layersFromBottom ?s' = 1 + int 2" by simp
  from conjunct2 [OF starting_layer_offset
                       [of exampleExternals exampleBodySkein ?s' 0 "take 7 exampleLayers" ?s'']]
    body start below
  have none: "perimeter ?s'' = None \<and> infillBoundaries ?s'' = None" by blast
  from pb lfb first offset body none show ?thesis
    by (intro exI [of _ ?s'] exI [of _ ?s'']) simp
qed

theorem infill_capture_gate_witness:
  "parseLine exampleExternals
     (exampleSkein\<lparr>layerIndex := 3, layerIndexTop := 3, layersFromBottom := 3\<rparr>) ''(<infill>)''
     = Inr (exampleSkein\<lparr>layerIndex := 3, layerIndexTop := 3, layersFromBottom := 3,
                         infillBoundaries := Some [], dfr_output := [AddLine ''(<infill>)'']\<rparr>) \<and>
   parseLine exampleExternals
     (exampleSkein\<lparr>layerIndex := 2, layerIndexTop := 3, layersFromBottom := 2\<rparr>) ''(<infill>)''
     = Inr (exampleSkein\<lparr>layerIndex := 2, layerIndexTop := 3, layersFromBottom := 2,
                         dfr_output := [AddLine ''(<infill>)'']\<rparr>) \<and>
   parseLine exampleExternals
     (exampleSkein\<lparr>layerIndex := 2, layerIndexTop := 3, layersFromBottom := 2,
                   dfr_output := [AddLine ''(<infill>)'']\<rparr>) ''(</infill>)''
     = Inr (exampleSkein\<lparr>layerIndex := 2, layerIndexTop := 3, layersFromBottom := 2,
                         dfr_output := [AddLine ''(<infill>)'', AddLine ''(</infill>)'']\<rparr>)"
proof -
  let ?top = "exampleSkein\<lparr>layerIndex := 3, layerIndexTop := 3, layersFromBottom := 3\<rparr>"
  let ?low = "exampleSkein\<lparr>layerIndex := 2, layerIndexTop := 3, layersFromBottom := 2\<rparr>"
  let ?low' = "exampleSkein\<lparr>layerIndex := 2, layerIndexTop := 3, layersFromBottom := 2,
                   dfr_output := [AddLine ''(<infill>)'']\<rparr>"
  have t1: "lineTag exampleExternals ''(<infill>)'' = Some ''(<infill>)''"
    and t2: "lineTag exampleExternals ''(</infill>)'' = Some ''(</infill>)''"
    by (simp_all add: lineTag_def example_defs)
  have none: "infillBoundaries ?low' = None" and out: "dfr_output exampleSkein = []"
    by (simp_all add: skein_defs)
  from conjunct1 [OF infill_capture_gate [of exampleExternals "''(<infill>)''" ?top]] t1
  have a: "parseLine exampleExternals ?top ''(<infill>)'' =
             Inr (addLine ''(<infill>)'' (?top\<lparr>infillBoundaries := Some []\<rparr>))"
    by simp
  from conjunct1 [OF infill_capture_gate [of exampleExternals "''(<infill>)''" ?low]] t1
  have b: "parseLine exampleExternals ?low ''(<infill>)'' = Inr (addLine ''(<infill>)'' ?low)"
    by simp
  from conjunct1 [OF conjunct2 [OF conjunct2
         [OF infill_capture_gate [of exampleExternals "''(</infill>)''" ?low']]]] t2 none
  have c: "parseLine exampleExternals ?low' ''(</infill>)'' = Inr (addLine ''(</infill>)'' ?low')"
    by blast
  from a b c show ?thesis by (simp add: addLine_def out)
qed

subsection \<open>The transform as a whole\<close>

lemma addSkinnedPerimeter_output:
  assumes "addSkinnedPerimeter E s = Inr s'"
  shows "set (dfr_output s) \<subseteq> set (dfr_output s')"
proof (cases "perimeter s")
  case None
  with assms show ?thesis by (simp add: addSkinnedPerimeter_absent)
next
  case (Some perim)
  from addSkinnedPerimeter_bracket [OF assms Some] obtain flow scaled cmds where
    "s' = s\<lparr>dfr_output := dfr_output s @ [flowRateLine E scaled] @ cmds @ [flowRateLine E flow],
            perimeter := None\<rparr>" by blast
  then have "dfr_output s' = dfr_output s @ [flowRateLine E scaled] @ cmds @ [flowRateLine E flow]"
    by simp
  then show ?thesis by auto
qed

lemma addSkinnedInfill_output:
  assumes "addSkinnedInfill E s = Inr s'"
  shows "set (dfr_output s) \<subseteq> set (dfr_output s')"
proof (cases "infillBoundaries s")
  case None
  with assms show ?thesis by (simp add: addSkinnedInfill_absent)
next
  case (Some addrs)
  from addSkinnedInfill_effect [OF assms Some] obtain flow loc cmds where
    "s' = s\<lparr>dfr_output := dfr_output s
               @ [flowRateLine E (flow / verticalDivisionsFloat s / horizontalInfillDivisionsFloat s)]
               @ cmds @ [flowRateLine E flow],
            oldLocation := positionAfter (Some loc) (vec_z loc) cmds,
            infillBoundaries := None\<rparr>" by blast
  then have "dfr_output s' = dfr_output s
               @ [flowRateLine E (flow / verticalDivisionsFloat s / horizontalInfillDivisionsFloat s)]
               @ cmds @ [flowRateLine E flow]"
    by simp
  then show ?thesis by auto
qed

lemma parseLine_output:
  assumes "parseLine E s line = Inr s'"
  shows "set (dfr_output s) \<subseteq> set (dfr_output s')"
  using assms
  by (auto simp: parseLine_def Let_def addLine_def split: if_splits sum.splits option.splits
      dest!: addSkinnedPerimeter_output addSkinnedInfill_output)

lemma parseLinesFrom_output:
  "parseLinesFrom E i ls s = Inr s' \<Longrightarrow> set (dfr_output s) \<subseteq> set (dfr_output s')"
proof (induction ls arbitrary: i s)
  case Nil
  then show ?case by simp
next
  case (Cons line rest)
  from Cons.prems obtain s1 where
    one: "parseLine E (s\<lparr>lineIndex := i\<rparr>) line = Inr s1" and
    step: "parseLinesFrom E (Suc i) rest s1 = Inr s'"
    by (auto split: sum.splits)
  from parseLine_output [OF one] Cons.IH [OF step] show ?case by auto
qed

lemma parseBoundaries_output:
  "parseBoundaries E s = Inr s' \<Longrightarrow> dfr_output s' = dfr_output s \<and> lines s' = lines s \<and>
     lineIndex s' = lineIndex s"
  by (auto simp: parseBoundaries_def split: sum.splits prod.splits)

lemma parseInitialization_tag:
  assumes "parseInitialization E s = Inr s'"
    and "\<exists>l \<in> set (lines s). isEndOfInitialization E l"
  shows "AddTagBracketedProcedure ''skin'' \<in> set (dfr_output s')"
proof -
  from assms(1) have "parseInitializationFrom E 0 (lines s) s = Inr s'"
    by (simp add: parseInitialization_def)
  from parseInitializationFrom_scan [OF this] assms(2) show ?thesis by simp
qed

lemma getCraftedGcode_tag:
  assumes "getCraftedGcode E gcodeText repo = Inr crafted"
    and "\<exists>l \<in> set (getTextLines E gcodeText). isEndOfInitialization E l"
  shows "\<exists>d cmds. crafted = getGcodeWithoutDuplication E ''M108'' (getvalue E d cmds) \<and>
           AddTagBracketedProcedure ''skin'' \<in> set cmds"
proof -
  let ?s0 = "newSkinSkein E gcodeText repo"
  from assms(1) obtain s1 pw iw siw overlap s3 s4 where
    init: "parseInitialization E ?s0 = Inr s1" and
    pb: "parseBoundaries E (s1\<lparr>clipLength := Some (0.5 * clipOverPerimeterWidth s1 * pw),
                  skinInfillInset := Some (0.5 * (iw + siw) * (1.0 - overlap))\<rparr>) = Inr s3" and
    body: "parseLinesFrom E (lineIndex s3) (drop (lineIndex s3) (lines s3)) s3 = Inr s4" and
    crafted: "crafted = getGcodeWithoutDuplication E ''M108''
                 (getvalue E (distanceFeedRate s4) (dfr_output s4))"
    unfolding getCraftedGcode_def Let_def
    by (auto split: sum.splits option.splits)
  have "lines ?s0 = getTextLines E gcodeText" by (simp add: newSkinSkein_def)
  with assms(2) parseInitialization_tag [OF init]
  have "AddTagBracketedProcedure ''skin'' \<in> set (dfr_output s1)" by simp
  with parseBoundaries_output [OF pb]
  have "AddTagBracketedProcedure ''skin'' \<in> set (dfr_output s3)" by simp
  with parseLinesFrom_output [OF body]
  have "AddTagBracketedProcedure ''skin'' \<in> set (dfr_output s4)" by auto
  with crafted show ?thesis by blast
qed

text \<open>
  Claim C1, as amended. \<^verbatim>\<open>getCraftedTextFromText\<close> returns its input unchanged when the
  input is empty, when it already carries the marker of the skin procedure, and when
  the Activate Skin setting (of the repository given, or of the one read when none is
  given) is off. When the input has an end-of-initialization line and the transform
  returns, its result is either the input itself or the text rendered from an output
  that holds the tag written by \<^verbatim>\<open>parseInitialization\<close>; where the imported functions
  recognise that tag, the result carries the marker, and a second application
  returns the result of the first unchanged.
\<close>

theorem getCraftedTextFromText_idempotent:
  "(gcodeText = [] \<longrightarrow> getCraftedTextFromText E gcodeText repo = Inr gcodeText) \<and>
   (isProcedureDone E gcodeText ''skin'' \<longrightarrow>
      getCraftedTextFromText E gcodeText repo = Inr gcodeText) \<and>
   (\<not> activateSkinValue (case repo of None \<Rightarrow> getReadRepository E | Some r \<Rightarrow> r) \<longrightarrow>
      getCraftedTextFromText E gcodeText repo = Inr gcodeText) \<and>
   (tagRecognised E \<and>
    (\<exists>l \<in> set (getTextLines E gcodeText). isEndOfInitialization E l) \<and>
    getCraftedTextFromText E gcodeText repo = Inr crafted \<longrightarrow>
      (crafted = gcodeText \<or>
         (\<exists>d cmds. crafted = getGcodeWithoutDuplication E ''M108'' (getvalue E d cmds) \<and>
            AddTagBracketedProcedure ''skin'' \<in> set cmds \<and>
            isProcedureDone E crafted ''skin'')) \<and>
      getCraftedTextFromText E crafted repo = Inr crafted)"
proof -
  let ?repo = "case repo of None \<Rightarrow> getReadRepository E | Some r \<Rightarrow> r"
  have again: "(crafted = gcodeText \<or>
         (\<exists>d cmds. crafted = getGcodeWithoutDuplication E ''M108'' (getvalue E d cmds) \<and>
            AddTagBracketedProcedure ''skin'' \<in> set cmds \<and>
            isProcedureDone E crafted ''skin'')) \<and>
      getCraftedTextFromText E crafted repo = Inr crafted"
    if a: "tagRecognised E \<and>
      (\<exists>l \<in> set (getTextLines E gcodeText). isEndOfInitialization E l) \<and>
      getCraftedTextFromText E gcodeText repo = Inr crafted"
  proof (cases "isProcedureDoneOrFileIsEmpty E gcodeText ''skin'' \<or> \<not> activateSkinValue ?repo")
    case True
    with a have "crafted = gcodeText"
      by (auto simp: getCraftedTextFromText_def Let_def split: if_splits)
    with a show ?thesis by simp
  next
    case False
    with a have "getCraftedGcode E gcodeText ?repo = Inr crafted"
      by (auto simp: getCraftedTextFromText_def Let_def split: if_splits)
    from getCraftedGcode_tag [OF this] a obtain d cmds where
      c: "crafted = getGcodeWithoutDuplication E ''M108'' (getvalue E d cmds)"
         "AddTagBracketedProcedure ''skin'' \<in> set cmds"
      by blast
    with a have marked: "isProcedureDone E crafted ''skin''"
      by (auto simp: tagRecognised_def)
    then have "getCraftedTextFromText E crafted repo = Inr crafted"
      by (simp add: getCraftedTextFromText_def isProcedureDoneOrFileIsEmpty_def)
    with c marked show ?thesis by blast
  qed
  have guards:
    "(gcodeText = [] \<longrightarrow> getCraftedTextFromText E gcodeText repo = Inr gcodeText) \<and>
     (isProcedureDone E gcodeText ''skin'' \<longrightarrow>
        getCraftedTextFromText E gcodeText repo = Inr gcodeText) \<and>
     (\<not> activateSkinValue ?repo \<longrightarrow> getCraftedTextFromText E gcodeText repo = Inr gcodeText)"
    by (simp add: getCraftedTextFromText_def isProcedureDoneOrFileIsEmpty_def)
  from guards again show ?thesis by blast
qed

lemma linesFrom_newline:
  "linesFrom w (xs @ CHR 0x0A # ys) = linesFrom w xs @ linesFrom [] ys"
  by (induction xs arbitrary: w) simp_all

lemma linesFrom_single: "CHR 0x0A \<notin> set xs \<Longrightarrow> linesFrom w xs = [w @ xs]"
  by (induction xs arbitrary: w) auto

lemma exampleRender_newline: "\<exists>b. exampleRender c = b @ [CHR 0x0A]"
  by (cases c) simp_all

lemma rendered_ends:
  "concat (map exampleRender cmds) = [] \<or>
   (\<exists>b. concat (map exampleRender cmds) = b @ [CHR 0x0A])"
proof (induction cmds rule: rev_induct)
  case Nil
  then show ?case by simp
next
  case (snoc c cmds)
  from exampleRender_newline [of c] obtain b where "exampleRender c = b @ [CHR 0x0A]" by blast
  then have "concat (map exampleRender (cmds @ [c])) =
               (concat (map exampleRender cmds) @ b) @ [CHR 0x0A]" by simp
  then show ?case by blast
qed

lemma line_after_rendered:
  assumes "linesFrom [] t = [t]"
    and "r = [] \<or> (\<exists>b. r = b @ [CHR 0x0A])"
  shows "t \<in> set (linesFrom [] (r @ t @ CHR 0x0A # rest))"
proof -
  have "linesFrom [] (r @ t @ CHR 0x0A # rest) = linesFrom [] (r @ t) @ linesFrom [] rest"
    using linesFrom_newline [of "[]" "r @ t" rest] by simp
  moreover have "t \<in> set (linesFrom [] (r @ t))"
    using assms linesFrom_newline [of "[]" _ t] by auto
  ultimately show ?thesis by simp
qed

lemma exampleExternals_tagRecognised: "tagRecognised exampleExternals"
  unfolding tagRecognised_def
proof (intro allI impI)
  fix d :: unit and cmds
  assume "AddTagBracketedProcedure ''skin'' \<in> set cmds"
  then obtain before after where
    cmds: "cmds = before @ AddTagBracketedProcedure ''skin'' # after"
    by (auto dest: split_list)
  have one: "linesFrom [] ''(<procedureName> skin </procedureName>)''
               = [''(<procedureName> skin </procedureName>)'']"
    by simp
  from line_after_rendered [OF one rendered_ends [of before]]
  have "''(<procedureName> skin </procedureName>)''
          \<in> set (linesFrom [] (concat (map exampleRender before)
                 @ ''(<procedureName> skin </procedureName>)''
                 @ CHR 0x0A # concat (map exampleRender after)))" .
  then show "isProcedureDone exampleExternals
          (getGcodeWithoutDuplication exampleExternals ''M108''
            (getvalue exampleExternals d cmds)) ''skin''"
    by (simp add: exampleExternals_def cmds)
qed

text \<open>
  Claim C1 as stated is about every input. The example header without an
  end-of-initialization line is crafted without a tag: the result does not carry the
  marker, and a second application returns a different text.
\<close>

theorem getCraftedTextFromText_second_run_counterexample:
  "getCraftedTextFromText exampleExternals (unlines exampleHeader) (Some exampleRepository)
     = Inr (unlines (exampleHeader @ [[]])) \<and>
   \<not> isProcedureDone exampleExternals (unlines (exampleHeader @ [[]])) ''skin'' \<and>
   getCraftedTextFromText exampleExternals (unlines (exampleHeader @ [[]])) (Some exampleRepository)
     = Inr (unlines (exampleHeader @ [[], []])) \<and>
   unlines (exampleHeader @ [[], []]) \<noteq> unlines (exampleHeader @ [[]])"
  by (simp add: run_defs example_defs)

theorem getCraftedTextFromText_idempotent_witness:
  "tagRecognised exampleExternals \<and>
   ''(</extruderInitialization>)'' \<in> set (getTextLines exampleExternals exampleText) \<and>
   getCraftedTextFromText exampleExternals exampleText (Some exampleRepository)
     = Inr exampleCrafted \<and>
   exampleCrafted \<noteq> exampleText \<and>
   isProcedureDone exampleExternals exampleCrafted ''skin'' \<and>
   getCraftedTextFromText exampleExternals exampleCrafted (Some exampleRepository)
     = Inr exampleCrafted \<and>
   getCraftedTextFromText exampleExternals [] (Some exampleRepository) = Inr [] \<and>
   getCraftedTextFromText exampleExternals exampleText None = Inr exampleText"
proof -
  have run: "getCraftedTextFromText exampleExternals exampleText (Some exampleRepository)
               = Inr exampleCrafted"
    by (simp add: run_defs example_defs)
  have line: "''(</extruderInitialization>)'' \<in> set (getTextLines exampleExternals exampleText)"
    by (simp add: example_defs)
  have marker: "isEndOfInitialization exampleExternals ''(</extruderInitialization>)''"
    by (simp add: isEndOfInitialization_def example_defs)
  from line marker have has: "\<exists>l \<in> set (getTextLines exampleExternals exampleText).
      isEndOfInitialization exampleExternals l" by blast
  have changed: "exampleCrafted \<noteq> exampleText"
    by (simp add: example_defs)
  have off: "\<not> activateSkinValue
               (case None of None \<Rightarrow> getReadRepository exampleExternals | Some r \<Rightarrow> r)"
    by (simp add: example_defs)
  note contract = exampleExternals_tagRecognised
  note idem = getCraftedTextFromText_idempotent
  from idem [of exampleText exampleExternals "Some exampleRepository" exampleCrafted]
    contract has run changed
  have again: "isProcedureDone exampleExternals exampleCrafted ''skin'' \<and>
      getCraftedTextFromText exampleExternals exampleCrafted (Some exampleRepository)
                 = Inr exampleCrafted"
    by blast
  from idem [of "[]" exampleExternals "Some exampleRepository" "[]"]
  have empty: "getCraftedTextFromText exampleExternals [] (Some exampleRepository) = Inr []"
    by blast
  from idem [of exampleText exampleExternals None exampleText] off
  have inactive: "getCraftedTextFromText exampleExternals exampleText None = Inr exampleText"
    by blast
  from contract line run changed again empty inactive show ?thesis by blast
qed

text \<open>
  Claim C4 as stated is about the final output. With one vertical and one horizontal
  division the scaled rate is the tracked rate, so both lines of the block repeat the
  \<^verbatim>\<open>M108 S2\<close> of the input; with the de-duplicating pass modelled from the spec the
  final text has no flow rate command at the block, while without that pass the block
  is bracketed.
\<close>

theorem flow_rate_bracket_final_counterexample:
  "getCraftedTextFromText exampleDeduplicating examplePerimeterText (Some exampleSingleRepository)
     = Inr (unlines (exampleHeader @
         [''(<procedureName> skin </procedureName>)'', ''(</extruderInitialization>)'',
          ''(<layer> 0 )'', ''M108 S2'', ''(<perimeter> outer )'', ''G1'', ''(</perimeter>)''])) \<and>
   getCraftedTextFromText exampleExternals examplePerimeterText (Some exampleSingleRepository)
     = Inr (unlines (exampleHeader @
         [''(<procedureName> skin </procedureName>)'', ''(</extruderInitialization>)'',
          ''(<layer> 0 )'', ''M108 S2'', ''(<perimeter> outer )'', ''M108 S2'', ''G1'',
          ''M108 S2'', ''(</perimeter>)'']))"
  by (simp add: run_defs example_defs exampleDeduplicating_def exampleSingleRepository_def
      examplePerimeterText_def linesOfText_def addSkinnedPerimeter_def emitSkinnedPerimeter_def
      getClippedSimplifiedLoopPathByLoop_def addFlowRateLine_def flowRateLine_def
      addPerimeterLoops_def addPerimeterLoop_def divisionZ_def dropAxis_def)

end
